theory Spec2Isabelle
  imports Main
begin

section \<open>Errors and promises\<close>

text \<open>
  Every method of \<open>AwsDeployFunction\<close> returns a promise. A promise that is rejected, and
  an exception thrown before the promise exists, are both the left summand of a sum; the
  error classes the code meets are kept apart, each with its message.
\<close>

datatype error =
    ServerlessError string
  | Error string
  | TypeError string
  | RangeError string
  | SyntaxError string
  | FsError string
  | TransportError string

section \<open>Decimal rendering and dates\<close>

text \<open>
  A template literal renders a number through \<open>ToString\<close>. For the integers met here
  (non-negative, below \<open>10^21\<close>) this is the plain decimal numeral.
\<close>

definition digitChar :: "int \<Rightarrow> char" where
  "digitChar d = char_of (48 + d)"

function digitsOf :: "int \<Rightarrow> string" where
  "digitsOf n = (if n < 10 then [digitChar n] else digitsOf (n div 10) @ [digitChar (n mod 10)])"
  by pat_completeness auto
termination
  by (relation "measure nat") auto

declare digitsOf.simps [simp del]

definition numberToString :: "int \<Rightarrow> string" where
  "numberToString i = (if i < 0 then CHR ''-'' # digitsOf (- i) else digitsOf i)"

text \<open>Zero padding on the left, as the date formatter pads its fields.\<close>

definition pad :: "nat \<Rightarrow> int \<Rightarrow> string" where
  "pad w n = replicate (w - length (digitsOf n)) CHR ''0'' @ digitsOf n"

text \<open>
  \<open>(new Date(time)).toISOString()\<close> for an integer time value in milliseconds: the
  proleptic Gregorian calendar date of the day number, then the time of day. A time value
  beyond \<open>8.64e15\<close> on either side is an invalid date, and \<open>toISOString\<close> throws a
  \<open>RangeError\<close> there. Years outside \<open>0\<close> to \<open>9999\<close> are written with a sign and
  six digits.
\<close>

definition maxTimeValue :: int where
  "maxTimeValue = 8640000000000000"

definition civilFromDays :: "int \<Rightarrow> int \<times> int \<times> int" where
  "civilFromDays days =
     (let z = days + 719468;
          era = z div 146097;
          doe = z mod 146097;
          yoe = (doe - doe div 1460 + doe div 36524 - doe div 146096) div 365;
          doy = doe - (365 * yoe + yoe div 4 - yoe div 100);
          mp = (5 * doy + 2) div 153;
          d = doy - (153 * mp + 2) div 5 + 1;
          m = (if mp < 10 then mp + 3 else mp - 9);
          y = yoe + era * 400 + (if m \<le> 2 then 1 else 0)
      in (y, m, d))"

definition yearString :: "int \<Rightarrow> string" where
  "yearString y =
     (if y < 0 then CHR ''-'' # pad 6 (- y)
      else if y \<le> 9999 then pad 4 y
      else CHR ''+'' # pad 6 y)"

definition toISOString :: "int \<Rightarrow> error + string" where
  "toISOString t =
     (if t < - maxTimeValue \<or> maxTimeValue < t then Inl (RangeError ''Invalid time value'')
      else
        let (y, m, d) = civilFromDays (t div 86400000)
        in Inr (yearString y @ ''-'' @ pad 2 m @ ''-'' @ pad 2 d @ ''T''
                @ pad 2 ((t div 3600000) mod 24) @ '':''
                @ pad 2 ((t div 60000) mod 60) @ '':''
                @ pad 2 ((t div 1000) mod 60) @ ''.''
                @ pad 3 (t mod 1000) @ ''Z''))"

section \<open>Values of the configuration\<close>

text \<open>
  The function, service and provider sections of the configuration are plain data read
  from a document: scalars, arrays and objects. An object is the list of its entries in
  insertion order, each key once. Numbers are the integers. Where the source reads a
  property under a fixed name, none of the names is one that a value inherits, and the
  model reads the own entry of a plain object. The one read under a name taken from the
  input, that of a resource by the name of a role, also looks at what every value has or
  inherits; see \<open>readProperty\<close>.
\<close>

datatype jsval =
    JUndefined
  | JNull
  | JBool bool
  | JNum int
  | JStr string
  | JArr "jsval list"
  | JObj "(string \<times> jsval) list"

type_synonym jsobj = "(string \<times> jsval) list"

text \<open>\<open>_.isObject\<close>, \<open>_.isArray\<close> and the truth value a condition sees.\<close>

fun isObject :: "jsval \<Rightarrow> bool" where
  "isObject (JArr xs) = True"
| "isObject (JObj kvs) = True"
| "isObject v = False"

fun isArray :: "jsval \<Rightarrow> bool" where
  "isArray (JArr xs) = True"
| "isArray v = False"

fun truthy :: "jsval \<Rightarrow> bool" where
  "truthy JUndefined = False"
| "truthy JNull = False"
| "truthy (JBool b) = b"
| "truthy (JNum n) = (n \<noteq> 0)"
| "truthy (JStr s) = (s \<noteq> [])"
| "truthy (JArr xs) = True"
| "truthy (JObj kvs) = True"

text \<open>\<open>k in obj\<close>, \<open>obj.k\<close>, \<open>obj.k = v\<close> and \<open>delete obj.k\<close> on an object.\<close>

definition hasKey :: "string \<Rightarrow> jsobj \<Rightarrow> bool" where
  "hasKey k obj = (map_of obj k \<noteq> None)"

definition propOf :: "jsobj \<Rightarrow> string \<Rightarrow> jsval" where
  "propOf obj k = (case map_of obj k of None \<Rightarrow> JUndefined | Some v \<Rightarrow> v)"

primrec setKey :: "string \<Rightarrow> jsval \<Rightarrow> jsobj \<Rightarrow> jsobj" where
  "setKey k v [] = [(k, v)]"
| "setKey k v (p # ps) = (if fst p = k then (k, v) # ps else p # setKey k v ps)"

definition deleteKey :: "string \<Rightarrow> jsobj \<Rightarrow> jsobj" where
  "deleteKey k obj = filter (\<lambda>p. fst p \<noteq> k) obj"

text \<open>\<open>_.omit(obj, k)\<close> builds a new object without the key.\<close>

definition omit :: "jsobj \<Rightarrow> string \<Rightarrow> jsobj" where
  "omit obj k = filter (\<lambda>p. fst p \<noteq> k) obj"

text \<open>
  A property read on any value: on \<open>undefined\<close> and \<open>null\<close> it throws, on a plain
  object it is the entry or \<open>undefined\<close>, on the other values it is \<open>undefined\<close>.
\<close>

definition memberOf :: "jsval \<Rightarrow> string \<Rightarrow> jsval" where
  "memberOf v k = (case v of JObj obj \<Rightarrow> propOf obj k | _ \<Rightarrow> JUndefined)"

definition nullish :: "jsval \<Rightarrow> bool" where
  "nullish v = (v = JUndefined \<or> v = JNull)"

definition getProp :: "jsval \<Rightarrow> string \<Rightarrow> error + jsval" where
  "getProp v k =
     (if nullish v then Inl (TypeError (''Cannot read property '' @ k))
      else Inr (memberOf v k))"

text \<open>The element read \<open>v[0]\<close>.\<close>

definition index0 :: "jsval \<Rightarrow> error + jsval" where
  "index0 v =
     (if nullish v then Inl (TypeError ''Cannot read property 0'')
      else Inr (case v of
                  JArr xs \<Rightarrow> (case xs of [] \<Rightarrow> JUndefined | x # rest \<Rightarrow> x)
                | JStr s \<Rightarrow> (case s of [] \<Rightarrow> JUndefined | c # rest \<Rightarrow> JStr [c])
                | JObj obj \<Rightarrow> propOf obj ''0''
                | _ \<Rightarrow> JUndefined))"

text \<open>
  The own enumerable entries of a value, as \<open>Object.assign\<close> copies them from a source:
  those of an object, the indexed elements of an array, the indexed characters of a
  string, none of any other value.
\<close>

definition indexKeys :: "nat \<Rightarrow> string list" where
  "indexKeys n = map (\<lambda>i. numberToString (int i)) [0..<n]"

definition ownEntries :: "jsval \<Rightarrow> jsobj" where
  "ownEntries v =
     (case v of
        JObj obj \<Rightarrow> obj
      | JArr xs \<Rightarrow> zip (indexKeys (length xs)) xs
      | JStr s \<Rightarrow> zip (indexKeys (length s)) (map (\<lambda>c. JStr [c]) s)
      | _ \<Rightarrow> [])"

definition assign :: "jsobj \<Rightarrow> jsobj \<Rightarrow> jsobj" where
  "assign target entries = foldl (\<lambda>t p. setKey (fst p) (snd p) t) target entries"

text \<open>The text a template literal puts in place of a value.\<close>

fun joinWith :: "string \<Rightarrow> string list \<Rightarrow> string" where
  "joinWith sep [] = []"
| "joinWith sep [x] = x"
| "joinWith sep (x # y # ys) = x @ sep @ joinWith sep (y # ys)"

fun toStringJS :: "jsval \<Rightarrow> string" where
  "toStringJS JUndefined = ''undefined''"
| "toStringJS JNull = ''null''"
| "toStringJS (JBool b) = (if b then ''true'' else ''false'')"
| "toStringJS (JNum n) = numberToString n"
| "toStringJS (JStr s) = s"
| "toStringJS (JArr xs) =
     joinWith '','' (map (\<lambda>x. if x = JUndefined \<or> x = JNull then [] else toStringJS x) xs)"
| "toStringJS (JObj kvs) = ''[object Object]''"

section \<open>The provider\<close>

text \<open>
  \<open>provider.request(service, operation, params, stage, region)\<close> and
  \<open>provider.getAccountId()\<close> are the only way out to the platform. The provider is
  given as its answer to each operation the methods use; an answer is a fulfilled or a
  rejected promise. The two object-store reads are typed by the fields of the response.
  Each method that can reach the compute platform or the identity service
  returns, with its result, the list of the calls it issued, in order.
\<close>

record s3_object =
  Key :: string

text \<open>
  A reply to \<open>listObjectsV2\<close>. The method reads the fields \<open>Contents\<close>,
  \<open>Truncated\<close> and \<open>NextContinuationToken\<close>; a field \<open>Truncated\<close> that is
  missing or does not count as true is \<open>False\<close> here. The object store itself says that
  a listing goes on in the field \<open>IsTruncated\<close>, which the method does not read.
\<close>

record listing =
  Contents :: "s3_object list option"
  Truncated :: bool
  IsTruncated :: bool
  NextContinuationToken :: "string option"

record list_params =
  Bucket :: string
  Prefix :: string
  ContinuationToken :: "string option"

record get_object_output =
  ContentType :: "string option"
  ContentLength :: "int option"
  Body :: "string option"
  filesha256 :: "string option"

record provider =
  s3_listObjectsV2 :: "list_params \<Rightarrow> error + listing"
  s3_getObject :: "jsobj \<Rightarrow> error + get_object_output"
  iam_getRole :: "jsobj \<Rightarrow> error + jsval"
  lambda_updateFunctionConfiguration :: "jsobj \<Rightarrow> error + jsval"
  lambda_updateFunctionCode :: "jsval \<Rightarrow> string \<Rightarrow> error + jsval"
  getAccountId :: "error + jsval"

datatype aws_call =
    GetAccountId
  | IamGetRole jsobj
  | LambdaUpdateFunctionConfiguration jsobj
  | LambdaUpdateFunctionCode jsval string

text \<open>
  What the methods read of \<open>this\<close>: the bucket, the service name, the stage, and the
  fields the methods write (\<open>lastDeploymentDirectory\<close> stands for
  \<open>serverless.service.provider.lastDeploymentDirectory\<close>).
\<close>

record plugin =
  bucketName :: string
  service :: string
  stage :: string
  directory :: "string option"
  lastDeploymentDirectory :: "string option"
  templateHash :: "string option"
  template :: "jsval option"

section \<open>The deployment locator\<close>

subsection \<open>The key pattern\<close>

text \<open>
  \<open>/^.*\/([^/-]+).*\/.*?$/.exec(item.Key)\<close>, by the backtracking order of the
  matcher. A key is a sequence of 8-bit characters. A dot matches every character but a
  line terminator, which among these characters is the line feed or the carriage return.
  The leading \<open>.*\<close> is greedy: its longest candidate is tried first, then shorter
  ones. After it a slash is required, then the group: one or more characters that are
  neither a slash nor a hyphen, longest first. What follows the group must be dots, a
  slash, and dots up to the end of the input. The result is the text of the group of the
  first alternative that matches.
\<close>

definition isDot :: "char \<Rightarrow> bool" where
  "isDot c = (c \<noteq> CHR 0x0A \<and> c \<noteq> CHR 0x0D)"

definition isGroupChar :: "char \<Rightarrow> bool" where
  "isGroupChar c = (c \<noteq> CHR ''/'' \<and> c \<noteq> CHR ''-'')"

definition tailMatches :: "string \<Rightarrow> bool" where
  "tailMatches r = (CHR ''/'' \<in> set r \<and> list_all isDot r)"

fun groupMatch :: "nat \<Rightarrow> string \<Rightarrow> string option" where
  "groupMatch 0 r = None"
| "groupMatch (Suc k) r =
     (if tailMatches (drop (Suc k) r) then Some (take (Suc k) r) else groupMatch k r)"

definition afterPrefix :: "string \<Rightarrow> string option" where
  "afterPrefix rest =
     (case rest of
        [] \<Rightarrow> None
      | c # r \<Rightarrow> if c = CHR ''/'' then groupMatch (length (takeWhile isGroupChar r)) r else None)"

fun prefixMatch :: "nat \<Rightarrow> string \<Rightarrow> string option" where
  "prefixMatch 0 s = afterPrefix s"
| "prefixMatch (Suc i) s =
     (case afterPrefix (drop (Suc i) s) of
        Some g \<Rightarrow> Some g
      | None \<Rightarrow> prefixMatch i s)"

definition parsedTime :: "string \<Rightarrow> string option" where
  "parsedTime key = prefixMatch (length (takeWhile isDot key)) key"

subsection \<open>Listing pages\<close>

definition listParams :: "plugin \<Rightarrow> string option \<Rightarrow> list_params" where
  "listParams this token =
     \<lparr>Bucket = bucketName this,
      Prefix = ''serverless/'' @ service this @ ''/'' @ stage this,
      ContinuationToken = token\<rparr>"

text \<open>
  The callback of \<open>_.reduce\<close>: an entry whose key does not match is skipped; otherwise
  the captured text goes through \<open>_.toInteger\<close> (lodash, taken as the parameter
  \<open>toInteger\<close>) and the larger of it and the accumulator is kept.
\<close>

definition reduceStep :: "(string \<Rightarrow> int) \<Rightarrow> int \<Rightarrow> s3_object \<Rightarrow> int" where
  "reduceStep toInteger acc item =
     (case parsedTime (Key item) of
        None \<Rightarrow> acc
      | Some g \<Rightarrow> (let time = toInteger g in if time > acc then time else acc))"

definition contentOf :: "listing \<Rightarrow> s3_object list" where
  "contentOf result = (case Contents result of None \<Rightarrow> [] | Some c \<Rightarrow> c)"

definition latestOf :: "(string \<Rightarrow> int) \<Rightarrow> int \<Rightarrow> listing \<Rightarrow> int" where
  "latestOf toInteger current result = foldl (reduceStep toInteger) current (contentOf result)"

text \<open>
  \<open>searchLatest\<close> asks for one page, folds it into the running value and asks again
  while the page says it is truncated. Nothing bounds the number of pages, so the function
  is partial: \<open>None\<close> is a pagination that never ends. A rejected request ends it with
  the error.
\<close>

partial_function (option) searchLatest ::
  "(string \<Rightarrow> int) \<Rightarrow> provider \<Rightarrow> plugin \<Rightarrow> int \<Rightarrow> string option \<Rightarrow> (error + int) option"
where
  "searchLatest toInteger prov this current token =
     (case s3_listObjectsV2 prov (listParams this token) of
        Inl e \<Rightarrow> Some (Inl e)
      | Inr result \<Rightarrow>
          if Truncated result
          then searchLatest toInteger prov this
                 (latestOf toInteger current result) (NextContinuationToken result)
          else Some (Inr (latestOf toInteger current result)))"

definition deploymentDirectory :: "plugin \<Rightarrow> int \<Rightarrow> error + string" where
  "deploymentDirectory this time =
     (case toISOString time of
        Inl e \<Rightarrow> Inl e
      | Inr isoText \<Rightarrow>
          Inr (''serverless/'' @ service this @ ''/'' @ stage this @ ''/''
               @ numberToString time @ ''-'' @ isoText))"

definition noPreviousDeployment :: error where
  "noPreviousDeployment = ServerlessError ''Could not find a previous service deployment''"

text \<open>The continuation after \<open>searchLatest(0)\<close>, once for each of the two methods.\<close>

definition getLastDeploymentDirectory ::
  "(string \<Rightarrow> int) \<Rightarrow> provider \<Rightarrow> plugin \<Rightarrow> (error + plugin) option"
where
  "getLastDeploymentDirectory toInteger prov this =
     (case searchLatest toInteger prov this 0 None of
        None \<Rightarrow> None
      | Some (Inl e) \<Rightarrow> Some (Inl e)
      | Some (Inr time) \<Rightarrow>
          if time = 0 then Some (Inl noPreviousDeployment)
          else (case deploymentDirectory this time of
                  Inl e \<Rightarrow> Some (Inl e)
                | Inr dir \<Rightarrow> Some (Inr (this\<lparr>directory := Some dir\<rparr>))))"

definition setLastDeploymentDirectory ::
  "(string \<Rightarrow> int) \<Rightarrow> provider \<Rightarrow> plugin \<Rightarrow> (error + plugin) option"
where
  "setLastDeploymentDirectory toInteger prov this =
     (case searchLatest toInteger prov this 0 None of
        None \<Rightarrow> None
      | Some (Inl e) \<Rightarrow> Some (Inl e)
      | Some (Inr time) \<Rightarrow>
          if time = 0 then Some (Inl noPreviousDeployment)
          else (case deploymentDirectory this time of
                  Inl e \<Rightarrow> Some (Inl e)
                | Inr dir \<Rightarrow> Some (Inr (this\<lparr>lastDeploymentDirectory := Some dir\<rparr>))))"

section \<open>The template fetch\<close>

text \<open>
  \<open>setServersideS3EncryptionOptions\<close> copies the request parameters and adds, for each
  of five fields of the deployment bucket object that is set to a value that counts as
  true, the parameter of the object store that goes with it.
\<close>

definition encryptionFields :: "(string \<times> string) list" where
  "encryptionFields =
     [(''serverSideEncryption'', ''ServerSideEncryption''),
      (''sseCustomerAlgorithim'', ''SSECustomerAlgorithm''),
      (''sseCustomerKey'', ''SSECustomerKey''),
      (''sseCustomerKeyMD5'', ''SSECustomerKeyMD5''),
      (''sseKMSKeyId'', ''SSEKMSKeyId'')]"

definition setServersideS3EncryptionOptions :: "jsval \<Rightarrow> jsobj \<Rightarrow> jsobj" where
  "setServersideS3EncryptionOptions deploymentBucketObject params =
     (if truthy deploymentBucketObject
      then foldl (\<lambda>clonedParams element.
                    if truthy (memberOf deploymentBucketObject (fst element))
                    then setKey (snd element) (memberOf deploymentBucketObject (fst element)) clonedParams
                    else clonedParams)
                 params encryptionFields
      else params)"

definition compiledTemplateFileName :: string where
  "compiledTemplateFileName = ''compiled-cloudformation-template.json''"

definition templateKey :: "string option \<Rightarrow> string" where
  "templateKey dir =
     (case dir of None \<Rightarrow> ''undefined'' | Some d \<Rightarrow> d) @ ''/'' @ compiledTemplateFileName"

definition templateUnavailable :: error where
  "templateUnavailable = ServerlessError ''Could not retrieve CF template from S3''"

text \<open>
  The three tests on the response, in the order of the source. A missing
  \<open>ContentLength\<close> counts as \<open>0\<close>. The body is a buffer, and a buffer counts as
  true whatever it holds, so only a missing body fails the third test.
\<close>

definition responseRejected :: "get_object_output \<Rightarrow> bool" where
  "responseRejected response =
     (ContentType response \<noteq> Some ''application/json'' \<or>
      (case ContentLength response of None \<Rightarrow> 0 | Some n \<Rightarrow> n) \<le> 0 \<or>
      Body response = None)"

text \<open>
  What happens to the response of \<open>getObject\<close>: rejection by the three tests, or else the
  fingerprint is stored, the body is read as text and handed to \<open>JSON.parse\<close> (the
  parameter \<open>JSON_parse\<close>), and the tree is stored. The state comes back with the
  outcome, since the fingerprint is stored before the text is parsed.
\<close>

definition receiveTemplate ::
  "(string \<Rightarrow> error + jsval) \<Rightarrow> plugin \<Rightarrow> get_object_output \<Rightarrow> plugin \<times> (error + unit)"
where
  "receiveTemplate JSON_parse this response =
     (if responseRejected response then (this, Inl templateUnavailable)
      else
        let this1 = this\<lparr>templateHash :=
                      Some (case filesha256 response of None \<Rightarrow> [] | Some h \<Rightarrow> h)\<rparr>;
            text = (case Body response of None \<Rightarrow> ''{}'' | Some b \<Rightarrow> b)
        in (case JSON_parse text of
              Inl e \<Rightarrow> (this1, Inl e)
            | Inr tree \<Rightarrow> (this1\<lparr>template := Some tree\<rparr>, Inr ())))"

definition getObjectParams :: "jsval \<Rightarrow> plugin \<Rightarrow> string option \<Rightarrow> jsobj" where
  "getObjectParams deploymentBucketObject this dir =
     setServersideS3EncryptionOptions deploymentBucketObject
       [(''Bucket'', JStr (bucketName this)), (''Key'', JStr (templateKey dir))]"

definition fetchTemplate ::
  "(string \<Rightarrow> error + jsval) \<Rightarrow> provider \<Rightarrow> jsval \<Rightarrow> plugin \<Rightarrow> string option
     \<Rightarrow> plugin \<times> (error + unit)"
where
  "fetchTemplate JSON_parse prov deploymentBucketObject this dir =
     (case s3_getObject prov (getObjectParams deploymentBucketObject this dir) of
        Inl e \<Rightarrow> (this, Inl e)
      | Inr response \<Rightarrow> receiveTemplate JSON_parse this response)"

text \<open>
  The method as the first file has it, reading \<open>this.directory\<close>, and as the second
  file has it, reading the directory published on the provider section.
\<close>

definition downloadTemplateFromS3 ::
  "(string \<Rightarrow> error + jsval) \<Rightarrow> provider \<Rightarrow> jsval \<Rightarrow> plugin \<Rightarrow> plugin \<times> (error + unit)"
where
  "downloadTemplateFromS3 JSON_parse prov deploymentBucketObject this =
     fetchTemplate JSON_parse prov deploymentBucketObject this (directory this)"

definition downloadTemplateFromS3_published ::
  "(string \<Rightarrow> error + jsval) \<Rightarrow> provider \<Rightarrow> jsval \<Rightarrow> plugin \<Rightarrow> plugin \<times> (error + unit)"
where
  "downloadTemplateFromS3_published JSON_parse prov deploymentBucketObject this =
     fetchTemplate JSON_parse prov deploymentBucketObject this (lastDeploymentDirectory this)"

section \<open>The role resolver\<close>

text \<open>
  \<open>normalizeArnRole(role)\<close>. A string without a colon names a resource of the service:
  the resource is looked up in \<open>resources.Resources\<close>, must be of the role type, and the
  ARN is put together from the account identifier, the path and the role name. A string
  with a colon comes back as it is. Any other value is read as an attribute reference, and
  the identity service is asked for the role named by its first element.
\<close>

definition notIamRole :: error where
  "notIamRole = Error ''Provided resource is not IAM Role.''"

text \<open>
  \<open>Resources[role]\<close> reads a property whose name comes from the input. A value has its
  own entries, those of an object, the elements of an array and the characters of a
  string under their indices; an array and a string have a \<open>length\<close> besides; and every
  value inherits the properties of \<open>Object.prototype\<close>. What is read under a name of
  the last two kinds is a built-in, a function or a number, which has no property
  \<open>Type\<close>. The methods that arrays, strings, numbers and booleans inherit from their
  own prototypes are left out.
\<close>

datatype property = Data jsval | Builtin

definition objectPrototypeKeys :: "string list" where
  "objectPrototypeKeys =
     [''constructor'', ''__defineGetter__'', ''__defineSetter__'', ''hasOwnProperty'',
      ''__lookupGetter__'', ''__lookupSetter__'', ''isPrototypeOf'', ''propertyIsEnumerable'',
      ''toString'', ''valueOf'', ''__proto__'', ''toLocaleString'']"

definition hasLength :: "jsval \<Rightarrow> bool" where
  "hasLength v = (case v of JArr xs \<Rightarrow> True | JStr s \<Rightarrow> True | _ \<Rightarrow> False)"

definition readProperty :: "jsval \<Rightarrow> string \<Rightarrow> property" where
  "readProperty v k =
     (case map_of (ownEntries v) k of
        Some x \<Rightarrow> Data x
      | None \<Rightarrow>
          if (k = ''length'' \<and> hasLength v) \<or> k \<in> set objectPrototypeKeys then Builtin
          else Data JUndefined)"

definition compiledFullRoleName :: "jsval \<Rightarrow> string \<Rightarrow> error + string" where
  "compiledFullRoleName resources role =
     (case getProp resources ''Resources'' of
        Inl e \<Rightarrow> Inl e
      | Inr rs \<Rightarrow>
          if nullish rs then Inl (TypeError (''Cannot read property '' @ role))
          else
     (case readProperty rs role of
        Builtin \<Rightarrow> Inl notIamRole
      | Data roleResource \<Rightarrow>
     (case getProp roleResource ''Type'' of
        Inl e \<Rightarrow> Inl e
      | Inr ty \<Rightarrow>
          if ty \<noteq> JStr ''AWS::IAM::Role'' then Inl notIamRole
          else
            let roleProperties = memberOf roleResource ''Properties''
            in (case getProp roleProperties ''Path'' of
                  Inl e \<Rightarrow> Inl e
                | Inr path \<Rightarrow>
                    Inr ((if truthy path then toStringJS path else ''/'')
                         @ toStringJS (memberOf roleProperties ''RoleName''))))))"

definition normalizeArnRole ::
  "provider \<Rightarrow> jsval \<Rightarrow> jsval \<Rightarrow> aws_call list \<times> (error + jsval)"
where
  "normalizeArnRole prov resources role =
     (case role of
        JStr r \<Rightarrow>
          if CHR '':'' \<notin> set r
          then (case compiledFullRoleName resources r of
                  Inl e \<Rightarrow> ([], Inl e)
                | Inr fullName \<Rightarrow>
                    ([GetAccountId],
                     (case getAccountId prov of
                        Inl e \<Rightarrow> Inl e
                      | Inr accountId \<Rightarrow>
                          Inr (JStr (''arn:aws:iam::'' @ toStringJS accountId @ '':role''
                                     @ fullName)))))
          else ([], Inr role)
      | _ \<Rightarrow>
          (case getProp role ''Fn::GetAtt'' of
             Inl e \<Rightarrow> ([], Inl e)
           | Inr att \<Rightarrow>
          (case index0 att of
             Inl e \<Rightarrow> ([], Inl e)
           | Inr roleName \<Rightarrow>
               ([IamGetRole [(''RoleName'', roleName)]],
                (case iam_getRole prov [(''RoleName'', roleName)] of
                   Inl e \<Rightarrow> Inl e
                 | Inr data \<Rightarrow> getProp data ''Arn'')))))"

section \<open>The configuration update\<close>

text \<open>
  \<open>updateFunctionConfiguration\<close> fills \<open>params\<close> field by field from the function
  section, the service section (which may be missing) and the provider section. Each
  block of the source is one step here, in the order of the source.
\<close>

definition concrete :: "string \<Rightarrow> jsobj \<Rightarrow> bool" where
  "concrete k obj = (hasKey k obj \<and> \<not> isObject (propOf obj k))"

definition kmsKeyStep :: "jsobj \<Rightarrow> jsobj option \<Rightarrow> jsobj \<Rightarrow> jsobj" where
  "kmsKeyStep functionObj serviceObj params =
     (if concrete ''awsKmsKeyArn'' functionObj
      then setKey ''KMSKeyArn'' (propOf functionObj ''awsKmsKeyArn'') params
      else (case serviceObj of
              None \<Rightarrow> params
            | Some so \<Rightarrow>
                if concrete ''awsKmsKeyArn'' so
                then setKey ''KMSKeyArn'' (propOf so ''awsKmsKeyArn'') params
                else params))"

definition descriptionStep :: "jsobj \<Rightarrow> jsobj \<Rightarrow> jsobj" where
  "descriptionStep functionObj params =
     (if concrete ''description'' functionObj
      then setKey ''Description'' (propOf functionObj ''description'') params
      else params)"

definition memorySizeStep :: "jsobj \<Rightarrow> jsobj \<Rightarrow> jsobj \<Rightarrow> jsobj" where
  "memorySizeStep functionObj providerObj params =
     (if concrete ''memorySize'' functionObj
      then setKey ''MemorySize'' (propOf functionObj ''memorySize'') params
      else if concrete ''memorySize'' providerObj
      then setKey ''MemorySize'' (propOf providerObj ''memorySize'') params
      else params)"

definition timeoutStep :: "jsobj \<Rightarrow> jsobj \<Rightarrow> jsobj \<Rightarrow> jsobj" where
  "timeoutStep functionObj providerObj params =
     (if concrete ''timeout'' functionObj
      then setKey ''Timeout'' (propOf functionObj ''timeout'') params
      else if concrete ''timeout'' providerObj
      then setKey ''Timeout'' (propOf providerObj ''timeout'') params
      else params)"

definition onErrorStep :: "jsobj \<Rightarrow> jsobj \<Rightarrow> jsobj" where
  "onErrorStep functionObj params =
     (if truthy (propOf functionObj ''onError'') \<and> \<not> isObject (propOf functionObj ''onError'')
      then setKey ''DeadLetterConfig'' (JObj [(''TargetArn'', propOf functionObj ''onError'')]) params
      else params)"

text \<open>The pattern \<open>/^[A-Za-z_][a-zA-Z0-9_]*$/\<close> on a key.\<close>

definition isLetter :: "char \<Rightarrow> bool" where
  "isLetter c = (let n = (of_char c :: nat) in (65 \<le> n \<and> n \<le> 90) \<or> (97 \<le> n \<and> n \<le> 122))"

definition isDigit :: "char \<Rightarrow> bool" where
  "isDigit c = (let n = (of_char c :: nat) in 48 \<le> n \<and> n \<le> 57)"

definition validEnvKey :: "string \<Rightarrow> bool" where
  "validEnvKey key =
     (case key of
        [] \<Rightarrow> False
      | c # cs \<Rightarrow> (isLetter c \<or> c = CHR ''_'')
                  \<and> list_all (\<lambda>d. isLetter d \<or> isDigit d \<or> d = CHR ''_'') cs)"

definition invalidEnvironment :: error where
  "invalidEnvironment = ServerlessError ''Invalid characters in environment variable''"

definition mergedVariables :: "jsobj \<Rightarrow> jsobj \<Rightarrow> jsobj" where
  "mergedVariables functionObj providerObj =
     assign (assign [] (ownEntries (propOf providerObj ''environment'')))
            (ownEntries (propOf functionObj ''environment''))"

text \<open>
  \<open>_.some(object, predicate)\<close>. lodash takes an object for a list when its \<open>length\<close>
  is a number that can be a length, an integer from \<open>0\<close> to \<open>2^53 - 1\<close>: it then asks
  the predicate about the properties \<open>0\<close> up to \<open>length - 1\<close> and about no other.
  Of any other object it asks the predicate about the value of every entry.
\<close>

definition arrayLength :: "jsobj \<Rightarrow> int option" where
  "arrayLength obj =
     (case map_of obj ''length'' of
        Some (JNum n) \<Rightarrow> if 0 \<le> n \<and> n \<le> 9007199254740991 then Some n else None
      | _ \<Rightarrow> None)"

definition some :: "jsobj \<Rightarrow> (jsval \<Rightarrow> bool) \<Rightarrow> bool" where
  "some obj predicate =
     (case arrayLength obj of
        Some n \<Rightarrow> list_ex (\<lambda>i. predicate (propOf obj (numberToString i))) [0..n - 1]
      | None \<Rightarrow> list_ex (\<lambda>p. predicate (snd p)) obj)"

definition environmentStep :: "jsobj \<Rightarrow> jsobj \<Rightarrow> jsobj \<Rightarrow> error + jsobj" where
  "environmentStep functionObj providerObj params =
     (if truthy (propOf functionObj ''environment'') \<or> truthy (propOf providerObj ''environment'')
      then
        let variables = mergedVariables functionObj providerObj;
            params1 = setKey ''Environment'' (JObj [(''Variables'', JObj variables)]) params
        in if some variables isObject
           then Inr (deleteKey ''Environment'' params1)
           else if list_all validEnvKey (map fst variables) then Inr params1
           else Inl invalidEnvironment
      else Inr params)"

text \<open>\<open>_.isArray(ids) && !_.some(ids, _.isObject)\<close>.\<close>

definition plainList :: "jsval \<Rightarrow> bool" where
  "plainList ids = (case ids of JArr xs \<Rightarrow> \<not> list_ex isObject xs | _ \<Rightarrow> False)"

definition chosenVpc :: "jsobj \<Rightarrow> jsobj \<Rightarrow> jsval" where
  "chosenVpc functionObj providerObj =
     (if truthy (propOf functionObj ''vpc'') then propOf functionObj ''vpc''
      else propOf providerObj ''vpc'')"

definition vpcConfigOf :: "jsval \<Rightarrow> jsobj" where
  "vpcConfigOf vpc =
     (let c1 = (if plainList (memberOf vpc ''securityGroupIds'')
                then setKey ''SecurityGroupIds'' (memberOf vpc ''securityGroupIds'') []
                else [])
      in if plainList (memberOf vpc ''subnetIds'')
         then setKey ''SubnetIds'' (memberOf vpc ''subnetIds'') c1
         else c1)"

definition vpcStep :: "jsobj \<Rightarrow> jsobj \<Rightarrow> jsobj \<Rightarrow> jsobj" where
  "vpcStep functionObj providerObj params =
     (if truthy (propOf functionObj ''vpc'') \<or> truthy (propOf providerObj ''vpc'')
      then
        let vpcConfig = vpcConfigOf (chosenVpc functionObj providerObj);
            params1 = setKey ''VpcConfig'' (JObj vpcConfig) params
        in if vpcConfig = [] then deleteKey ''VpcConfig'' params1 else params1
      else params)"

text \<open>The parameters as they stand before the role is looked at.\<close>

definition buildParams :: "jsobj \<Rightarrow> jsobj option \<Rightarrow> jsobj \<Rightarrow> error + jsobj" where
  "buildParams functionObj serviceObj providerObj =
     (let params0 = [(''FunctionName'', propOf functionObj ''name'')];
          params1 = kmsKeyStep functionObj serviceObj params0;
          params2 = descriptionStep functionObj params1;
          params3 = memorySizeStep functionObj providerObj params2;
          params4 = timeoutStep functionObj providerObj params3;
          params5 = onErrorStep functionObj params4
      in (case environmentStep functionObj providerObj params5 of
            Inl e \<Rightarrow> Inl e
          | Inr params6 \<Rightarrow> Inr (vpcStep functionObj providerObj params6)))"

definition callUpdateFunctionConfiguration :: "provider \<Rightarrow> jsobj \<Rightarrow> aws_call list \<times> (error + unit)" where
  "callUpdateFunctionConfiguration prov params =
     ([LambdaUpdateFunctionConfiguration params],
      (case lambda_updateFunctionConfiguration prov params of
         Inl e \<Rightarrow> Inl e
       | Inr ack \<Rightarrow> Inr ()))"

definition updateWithRole ::
  "provider \<Rightarrow> jsval \<Rightarrow> jsval \<Rightarrow> jsobj \<Rightarrow> aws_call list \<times> (error + unit)"
where
  "updateWithRole prov resources role params =
     (case normalizeArnRole prov resources role of
        (calls, Inl e) \<Rightarrow> (calls, Inl e)
      | (calls, Inr roleArn) \<Rightarrow>
          (case callUpdateFunctionConfiguration prov (setKey ''Role'' roleArn params) of
             (calls2, outcome) \<Rightarrow> (calls @ calls2, outcome)))"

definition updateFunctionConfiguration ::
  "provider \<Rightarrow> jsval \<Rightarrow> jsobj \<Rightarrow> jsobj option \<Rightarrow> jsobj \<Rightarrow> aws_call list \<times> (error + unit)"
where
  "updateFunctionConfiguration prov resources functionObj serviceObj providerObj =
     (case buildParams functionObj serviceObj providerObj of
        Inl e \<Rightarrow> ([], Inl e)
      | Inr params \<Rightarrow>
          if concrete ''role'' functionObj
          then updateWithRole prov resources (propOf functionObj ''role'') params
          else if concrete ''role'' providerObj
          then updateWithRole prov resources (propOf providerObj ''role'') params
          else if omit params ''FunctionName'' = [] then ([], Inr ())
          else callUpdateFunctionConfiguration prov params)"

section \<open>The code upload\<close>

text \<open>
  \<open>deployFunction\<close> reads the artifact, compares its digest with the one the platform
  recorded, and uploads unless they are equal and no upload is forced. The file system is
  a map from paths to contents; the digest \<open>sha256\<close>, rendered in base64, is the
  parameter \<open>digest\<close>. The remote descriptor is the field \<open>remoteFunctionData\<close> of
  the provider section.
\<close>

definition hasArtifact :: "jsval \<Rightarrow> bool" where
  "hasArtifact functionObject =
     (case functionObject of
        JObj obj \<Rightarrow> (case propOf obj ''package'' of
                       JObj pkg \<Rightarrow> hasKey ''artifact'' pkg
                     | _ \<Rightarrow> False)
      | _ \<Rightarrow> False)"

definition artifactFilePath :: "jsval \<Rightarrow> string \<Rightarrow> jsval \<Rightarrow> jsval" where
  "artifactFilePath packageArtifact defaultPath functionObject =
     (if hasArtifact functionObject then memberOf (memberOf functionObject ''package'') ''artifact''
      else if truthy packageArtifact then packageArtifact
      else JStr defaultPath)"

definition readFileSync :: "(string \<rightharpoonup> string) \<Rightarrow> jsval \<Rightarrow> error + string" where
  "readFileSync fs path =
     (case path of
        JStr p \<Rightarrow> (case fs p of
                     None \<Rightarrow> Inl (FsError (''ENOENT: no such file or directory, open '' @ p))
                   | Some bytes \<Rightarrow> Inr bytes)
      | _ \<Rightarrow> Inl (TypeError ''path must be a string or Buffer''))"

definition codeSha256 :: "jsobj \<Rightarrow> error + jsval" where
  "codeSha256 providerObj =
     (case getProp (propOf providerObj ''remoteFunctionData'') ''Configuration'' of
        Inl e \<Rightarrow> Inl e
      | Inr conf \<Rightarrow> getProp conf ''CodeSha256'')"

record deploy_options =
  options_force :: jsval
  options_functionObj :: jsobj

definition deployFunction ::
  "provider \<Rightarrow> (string \<Rightarrow> string) \<Rightarrow> (string \<rightharpoonup> string) \<Rightarrow> jsval \<Rightarrow> string \<Rightarrow> jsval \<Rightarrow> jsobj
     \<Rightarrow> deploy_options \<Rightarrow> aws_call list \<times> (error + unit)"
where
  "deployFunction prov digest fs packageArtifact defaultPath functionObject providerObj options =
     (case readFileSync fs (artifactFilePath packageArtifact defaultPath functionObject) of
        Inl e \<Rightarrow> ([], Inl e)
      | Inr data \<Rightarrow>
     (case codeSha256 providerObj of
        Inl e \<Rightarrow> ([], Inl e)
      | Inr remoteHash \<Rightarrow>
          let localHash = digest data
          in if remoteHash = JStr localHash \<and> \<not> truthy (options_force options) then ([], Inr ())
             else
               ([LambdaUpdateFunctionCode (propOf (options_functionObj options) ''name'') data],
                (case lambda_updateFunctionCode prov (propOf (options_functionObj options) ''name'') data of
                   Inl e \<Rightarrow> Inl e
                 | Inr ack \<Rightarrow> Inr ()))))"

section \<open>The document loader\<close>

text \<open>
  \<open>YamlParser.parse\<close> cuts the last segment off the path of the root document (the
  separator of paths, \<open>path.sep\<close>, is the slash), asks the process to make the rest
  its working directory, reads the root document and hands it to the reference resolver.
  The process is its working directory. The operating system is the parameter
  \<open>resolveDirectory\<close>: for the working directory and the text of a path it gives the
  directory that the text leads to, in the form in which the process reports it (absolute,
  without empty segments, dots and links), or the error. The reader of the framework and
  the resolver of \<open>json-refs\<close>, which both resolve a relative path against the working
  directory of the process, are the parameters \<open>readRoot\<close> and \<open>resolveRefs\<close>.
\<close>

record process =
  cwd :: string

fun splitOn :: "char \<Rightarrow> string \<Rightarrow> string list" where
  "splitOn sep [] = [[]]"
| "splitOn sep (c # cs) =
     (case splitOn sep cs of
        [] \<Rightarrow> [[]]
      | seg # segs \<Rightarrow> if c = sep then [] # seg # segs else (c # seg) # segs)"

definition parentDir :: "string \<Rightarrow> string" where
  "parentDir yamlFilePath = joinWith ''/'' (butlast (splitOn CHR ''/'' yamlFilePath))"

text \<open>\<open>process.chdir(dir)\<close>. The empty text leads to no directory.\<close>

definition chdir ::
  "(string \<Rightarrow> string \<Rightarrow> error + string) \<Rightarrow> string \<Rightarrow> process \<Rightarrow> error + process"
where
  "chdir resolveDirectory dir proc =
     (if dir = [] then Inl (FsError ''ENOENT: no such file or directory, chdir'')
      else (case resolveDirectory (cwd proc) dir of
              Inl e \<Rightarrow> Inl e
            | Inr target \<Rightarrow> Inr (proc\<lparr>cwd := target\<rparr>)))"

definition parse ::
  "(string \<Rightarrow> string \<Rightarrow> error + string) \<Rightarrow> (process \<Rightarrow> string \<Rightarrow> error + jsval)
     \<Rightarrow> (process \<Rightarrow> jsval \<Rightarrow> error + jsval) \<Rightarrow> process \<Rightarrow> string \<Rightarrow> process \<times> (error + jsval)"
where
  "parse resolveDirectory readRoot resolveRefs proc yamlFilePath =
     (case chdir resolveDirectory (parentDir yamlFilePath) proc of
        Inl e \<Rightarrow> (proc, Inl e)
      | Inr proc1 \<Rightarrow>
          (proc1,
           (case readRoot proc1 yamlFilePath of
              Inl e \<Rightarrow> Inl e
            | Inr root \<Rightarrow> resolveRefs proc1 root)))"

section \<open>Notions of the specification\<close>

subsection \<open>Listings\<close>

text \<open>
  The timestamps of a list of entries are the integers read from the keys that match the
  pattern; those of a sequence of pages are the timestamps of all their entries.
\<close>

definition timesOf :: "(string \<Rightarrow> int) \<Rightarrow> s3_object list \<Rightarrow> int list" where
  "timesOf toInteger items =
     List.map_filter (\<lambda>item. map_option toInteger (parsedTime (Key item))) items"

definition extractedTimes :: "(string \<Rightarrow> int) \<Rightarrow> listing list \<Rightarrow> int list" where
  "extractedTimes toInteger pages = concat (map (\<lambda>p. timesOf toInteger (contentOf p)) pages)"

text \<open>
  The object store serves a finite sequence of pages from a token on, as the method reads
  them: the request with that token is answered by the first page, every page but the
  last says in its field \<open>Truncated\<close> that it is truncated, the last does not, and the
  continuation token of a page is answered by the next page.
\<close>

fun serves :: "provider \<Rightarrow> plugin \<Rightarrow> string option \<Rightarrow> listing list \<Rightarrow> bool" where
  "serves prov this token [] = False"
| "serves prov this token (p # ps) =
     (s3_listObjectsV2 prov (listParams this token) = Inr p \<and>
      (if ps = [] then \<not> Truncated p
       else Truncated p \<and> serves prov this (NextContinuationToken p) ps))"

subsection \<open>Concrete inputs\<close>

text \<open>
  \<open>_.toInteger\<close> on a text of decimal digits whose value is below \<open>2^53\<close> is that
  value, and on a text that is no numeral it is \<open>0\<close>. This instance covers those texts
  and is what the examples run with. Numerals of another form (with a sign, a fraction, an
  exponent, a radix prefix or blanks around them) and larger values are outside it.
\<close>

definition digitsToInteger :: "string \<Rightarrow> int" where
  "digitsToInteger s =
     (if s \<noteq> [] \<and> list_all isDigit s
      then foldl (\<lambda>acc c. 10 * acc + (int (of_char c) - 48)) 0 s
      else 0)"

text \<open>A provider that rejects every request, to be overridden operation by operation.\<close>

definition offline :: provider where
  "offline =
     \<lparr>s3_listObjectsV2 = (\<lambda>params. Inl (TransportError ''offline'')),
      s3_getObject = (\<lambda>params. Inl (TransportError ''offline'')),
      iam_getRole = (\<lambda>params. Inl (TransportError ''offline'')),
      lambda_updateFunctionConfiguration = (\<lambda>params. Inl (TransportError ''offline'')),
      lambda_updateFunctionCode = (\<lambda>name zip. Inl (TransportError ''offline'')),
      getAccountId = Inl (TransportError ''offline'')\<rparr>"

definition examplePlugin :: plugin where
  "examplePlugin =
     \<lparr>bucketName = ''deployments'', service = ''svc'', stage = ''dev'', directory = None,
      lastDeploymentDirectory = None, templateHash = None, template = None\<rparr>"

text \<open>
  Three pages chained by the tokens \<open>t1\<close> and \<open>t2\<close>. The largest timestamp is on the
  middle page, one timestamp occurs on two pages, and one key does not match the pattern.
\<close>

definition page1 :: listing where
  "page1 =
     \<lparr>Contents = Some
        [\<lparr>Key = ''serverless/svc/dev/1500000000000-2017-07-14T02:40:00.000Z/compiled-cloudformation-template.json''\<rparr>,
         \<lparr>Key = ''serverless/svc/dev/1400000000000-2014-05-13T16:53:20.000Z/svc.zip''\<rparr>],
      Truncated = True, IsTruncated = True, NextContinuationToken = Some ''t1''\<rparr>"

definition page2 :: listing where
  "page2 =
     \<lparr>Contents = Some
        [\<lparr>Key = ''serverless/svc/dev/1600000000000-2020-09-13T12:26:40.000Z/svc.zip''\<rparr>,
         \<lparr>Key = ''serverless/svc/dev/1500000000000-2017-07-14T02:40:00.000Z/svc.zip''\<rparr>],
      Truncated = True, IsTruncated = True, NextContinuationToken = Some ''t2''\<rparr>"

definition page3 :: listing where
  "page3 =
     \<lparr>Contents = Some
        [\<lparr>Key = ''serverless/svc/dev/1300000000000-2011-03-13T07:06:40.000Z/svc.zip''\<rparr>,
         \<lparr>Key = ''serverless''\<rparr>],
      Truncated = False, IsTruncated = False, NextContinuationToken = None\<rparr>"

definition pagedStore :: provider where
  "pagedStore =
     offline\<lparr>s3_listObjectsV2 :=
       (\<lambda>params. case ContinuationToken params of
                    None \<Rightarrow> Inr page1
                  | Some t \<Rightarrow> if t = ''t1'' then Inr page2
                              else if t = ''t2'' then Inr page3
                              else Inl (TransportError ''The continuation token is not valid''))\<rparr>"

text \<open>A listing of one page whose only entry carries the timestamp \<open>0\<close>.\<close>

definition zeroPage :: listing where
  "zeroPage =
     \<lparr>Contents = Some
        [\<lparr>Key = ''serverless/svc/dev/0-1970-01-01T00:00:00.000Z/compiled-cloudformation-template.json''\<rparr>],
      Truncated = False, IsTruncated = False, NextContinuationToken = None\<rparr>"

definition zeroStore :: provider where
  "zeroStore = offline\<lparr>s3_listObjectsV2 := (\<lambda>params. Inr zeroPage)\<rparr>"

text \<open>A listing of one page whose only entry carries a timestamp past the last date.\<close>

definition farPage :: listing where
  "farPage =
     \<lparr>Contents = Some [\<lparr>Key = ''serverless/svc/dev/9000000000000000-x/svc.zip''\<rparr>],
      Truncated = False, IsTruncated = False, NextContinuationToken = None\<rparr>"

definition farStore :: provider where
  "farStore = offline\<lparr>s3_listObjectsV2 := (\<lambda>params. Inr farPage)\<rparr>"

text \<open>
  Two pages as the object store itself sends them: the first says in \<open>IsTruncated\<close>
  that the listing goes on and has no field \<open>Truncated\<close>. The larger timestamp is on
  the second page.
\<close>

definition storePage1 :: listing where
  "storePage1 =
     \<lparr>Contents = Some
        [\<lparr>Key = ''serverless/svc/dev/1500000000000-2017-07-14T02:40:00.000Z/svc.zip''\<rparr>],
      Truncated = False, IsTruncated = True, NextContinuationToken = Some ''t1''\<rparr>"

definition storePage2 :: listing where
  "storePage2 =
     \<lparr>Contents = Some
        [\<lparr>Key = ''serverless/svc/dev/1600000000000-2020-09-13T12:26:40.000Z/svc.zip''\<rparr>],
      Truncated = False, IsTruncated = False, NextContinuationToken = None\<rparr>"

definition objectStore :: provider where
  "objectStore =
     offline\<lparr>s3_listObjectsV2 :=
       (\<lambda>params. case ContinuationToken params of
                    None \<Rightarrow> Inr storePage1
                  | Some t \<Rightarrow> if t = ''t1'' then Inr storePage2
                              else Inl (TransportError ''The continuation token is not valid''))\<rparr>"

text \<open>The listing without entries.\<close>

definition emptyPage :: listing where
  "emptyPage = \<lparr>Contents = Some [], Truncated = False, IsTruncated = False, NextContinuationToken = None\<rparr>"

definition emptyStore :: provider where
  "emptyStore = offline\<lparr>s3_listObjectsV2 := (\<lambda>params. Inr emptyPage)\<rparr>"

subsection \<open>A reader of JSON texts\<close>

text \<open>
  An instance of \<open>JSON.parse\<close> for the examples: it reads the JSON texts made of
  objects, arrays, strings without escapes, integers without fraction and exponent, and
  the three literals. Texts with escapes, fractions or exponents are outside this
  instance. The first argument bounds the number of nested calls.
\<close>

definition isBlank :: "char \<Rightarrow> bool" where
  "isBlank c = (c = CHR '' '' \<or> c = CHR 0x09 \<or> c = CHR 0x0A \<or> c = CHR 0x0D)"

definition skipBlanks :: "string \<Rightarrow> string" where
  "skipBlanks s = dropWhile isBlank s"

fun parseString :: "string \<Rightarrow> (string \<times> string) option" where
  "parseString [] = None"
| "parseString (c # cs) =
     (if c = CHR 0x22 then Some ([], cs)
      else if c = CHR 0x5C \<or> (of_char c :: nat) < 32 then None
      else (case parseString cs of None \<Rightarrow> None | Some (s, r) \<Rightarrow> Some (c # s, r)))"

definition parseDigits :: "string \<Rightarrow> (int \<times> string) option" where
  "parseDigits s =
     (let ds = takeWhile isDigit s; r = dropWhile isDigit s
      in if ds = [] \<or> (1 < length ds \<and> take 1 ds = ''0'') then None
         else if r \<noteq> [] \<and> (take 1 r = ''.'' \<or> take 1 r = ''e'' \<or> take 1 r = ''E'') then None
         else Some (digitsToInteger ds, r))"

definition parseNumber :: "string \<Rightarrow> (int \<times> string) option" where
  "parseNumber s =
     (if take 1 s = ''-''
      then (case parseDigits (drop 1 s) of None \<Rightarrow> None | Some (i, r) \<Rightarrow> Some (- i, r))
      else parseDigits s)"

fun parseValue :: "nat \<Rightarrow> string \<Rightarrow> (jsval \<times> string) option"
  and parseElements :: "nat \<Rightarrow> string \<Rightarrow> (jsval list \<times> string) option"
  and parseMembers :: "nat \<Rightarrow> string \<Rightarrow> (jsobj \<times> string) option"
where
  "parseValue 0 s = None"
| "parseValue (Suc n) s =
     (case skipBlanks s of
        [] \<Rightarrow> None
      | c # cs \<Rightarrow>
          if c = CHR ''{''
          then (if take 1 (skipBlanks cs) = ''}'' then Some (JObj [], drop 1 (skipBlanks cs))
                else (case parseMembers n cs of
                        None \<Rightarrow> None
                      | Some (kvs, r) \<Rightarrow> Some (JObj (assign [] kvs), r)))
          else if c = CHR ''[''
          then (if take 1 (skipBlanks cs) = '']'' then Some (JArr [], drop 1 (skipBlanks cs))
                else (case parseElements n cs of
                        None \<Rightarrow> None
                      | Some (xs, r) \<Rightarrow> Some (JArr xs, r)))
          else if c = CHR 0x22
          then (case parseString cs of None \<Rightarrow> None | Some (str, r) \<Rightarrow> Some (JStr str, r))
          else if take 4 (c # cs) = ''true'' then Some (JBool True, drop 4 (c # cs))
          else if take 5 (c # cs) = ''false'' then Some (JBool False, drop 5 (c # cs))
          else if take 4 (c # cs) = ''null'' then Some (JNull, drop 4 (c # cs))
          else (case parseNumber (c # cs) of None \<Rightarrow> None | Some (i, r) \<Rightarrow> Some (JNum i, r)))"
| "parseElements 0 s = None"
| "parseElements (Suc n) s =
     (case parseValue n s of
        None \<Rightarrow> None
      | Some (v, r) \<Rightarrow>
          if take 1 (skipBlanks r) = '']'' then Some ([v], drop 1 (skipBlanks r))
          else if take 1 (skipBlanks r) = '',''
          then (case parseElements n (drop 1 (skipBlanks r)) of
                  None \<Rightarrow> None
                | Some (vs, r2) \<Rightarrow> Some (v # vs, r2))
          else None)"
| "parseMembers 0 s = None"
| "parseMembers (Suc n) s =
     (if take 1 (skipBlanks s) \<noteq> [CHR 0x22] then None
      else (case parseString (drop 1 (skipBlanks s)) of
              None \<Rightarrow> None
            | Some (k, r) \<Rightarrow>
                if take 1 (skipBlanks r) \<noteq> '':'' then None
                else (case parseValue n (drop 1 (skipBlanks r)) of
                        None \<Rightarrow> None
                      | Some (v, r2) \<Rightarrow>
                          if take 1 (skipBlanks r2) = ''}''
                          then Some ([(k, v)], drop 1 (skipBlanks r2))
                          else if take 1 (skipBlanks r2) = '',''
                          then (case parseMembers n (drop 1 (skipBlanks r2)) of
                                  None \<Rightarrow> None
                                | Some (kvs, r3) \<Rightarrow> Some ((k, v) # kvs, r3))
                          else None)))"

definition jsonParse :: "string \<Rightarrow> error + jsval" where
  "jsonParse text =
     (case parseValue (2 * length text + 2) text of
        None \<Rightarrow> Inl (SyntaxError ''Unexpected token in JSON'')
      | Some (v, r) \<Rightarrow>
          if skipBlanks r = [] then Inr v else Inl (SyntaxError ''Unexpected token in JSON''))"

subsection \<open>Responses of the object store\<close>

definition emptyTemplateResponse :: get_object_output where
  "emptyTemplateResponse =
     \<lparr>ContentType = Some ''application/json'', ContentLength = Some 2, Body = Some ''{}'',
      filesha256 = None\<rparr>"

definition templateStore :: provider where
  "templateStore = offline\<lparr>s3_getObject := (\<lambda>params. Inr emptyTemplateResponse)\<rparr>"

definition locatedPlugin :: plugin where
  "locatedPlugin =
     examplePlugin\<lparr>directory := Some ''serverless/svc/dev/1600000000000-2020-09-13T12:26:40.000Z'',
       lastDeploymentDirectory := Some ''serverless/svc/dev/1600000000000-2020-09-13T12:26:40.000Z''\<rparr>"

subsection \<open>Roles\<close>

definition roleResources :: jsval where
  "roleResources =
     JObj [(''Resources'',
            JObj [(''DeployRole'',
                   JObj [(''Type'', JStr ''AWS::IAM::Role''),
                         (''Properties'', JObj [(''RoleName'', JStr ''deployer'')])])])]"

definition accountProvider :: provider where
  "accountProvider = offline\<lparr>getAccountId := Inr (JStr ''123456789012'')\<rparr>"

subsection \<open>Artifacts\<close>

text \<open>Two calls of \<open>deployFunction\<close> in a row, on the same files and the same descriptor.\<close>

definition deployTwice ::
  "provider \<Rightarrow> (string \<Rightarrow> string) \<Rightarrow> (string \<rightharpoonup> string) \<Rightarrow> jsval \<Rightarrow> string \<Rightarrow> jsval \<Rightarrow> jsobj
     \<Rightarrow> deploy_options \<Rightarrow> aws_call list \<times> (error + unit) \<times> (error + unit)"
where
  "deployTwice prov digest fs packageArtifact defaultPath functionObject providerObj options =
     (case deployFunction prov digest fs packageArtifact defaultPath functionObject providerObj
             options of
        (calls1, first) \<Rightarrow>
          (case deployFunction prov digest fs packageArtifact defaultPath functionObject
                  providerObj options of
             (calls2, second) \<Rightarrow> (calls1 @ calls2, first, second)))"

text \<open>
  The digest \<open>sha256\<close> in base64 of the two contents the examples use, the empty content
  and the content \<open>abc\<close>. Other contents are outside this instance.
\<close>

definition exampleDigest :: "string \<Rightarrow> string" where
  "exampleDigest data =
     (if data = [] then ''47DEQpj8HBSa+/TImW+5JCeuQeRkm5NMpJWZG3hSuFU=''
      else if data = ''abc'' then ''ungWv48Bz+pBQUDeXa4iI7ADYaOWF3qctBD/YfIAFa0=''
      else [])"

definition exampleFiles :: "string \<rightharpoonup> string" where
  "exampleFiles = [''.serverless/fn.zip'' \<mapsto> ''abc'']"

definition deployedProvider :: jsobj where
  "deployedProvider =
     [(''remoteFunctionData'',
       JObj [(''Configuration'',
              JObj [(''FunctionName'', JStr ''svc-dev-fn''),
                    (''MemorySize'', JNum 512),
                    (''CodeSha256'', JStr ''ungWv48Bz+pBQUDeXa4iI7ADYaOWF3qctBD/YfIAFa0='')])])]"

definition acceptingProvider :: provider where
  "acceptingProvider =
     offline\<lparr>lambda_updateFunctionConfiguration := (\<lambda>params. Inr (JObj [])),
             lambda_updateFunctionCode := (\<lambda>name zip. Inr (JObj []))\<rparr>"

definition plainOptions :: deploy_options where
  "plainOptions = \<lparr>options_force = JUndefined, options_functionObj = [(''name'', JStr ''svc-dev-fn'')]\<rparr>"

definition forcedOptions :: deploy_options where
  "forcedOptions = \<lparr>options_force = JBool True, options_functionObj = [(''name'', JStr ''svc-dev-fn'')]\<rparr>"

subsection \<open>Desired configurations\<close>

text \<open>
  What the function, service and provider sections give for the patch: a value for a
  scalar field that is there and is not a structured value, a dead-letter target that
  counts as true and is not structured, an environment section none of whose merged
  values is structured, a network section with at least one list without structured
  values, and a role.
\<close>

definition kmsKeyGiven :: "jsobj \<Rightarrow> jsobj option \<Rightarrow> bool" where
  "kmsKeyGiven functionObj serviceObj =
     (concrete ''awsKmsKeyArn'' functionObj \<or>
      (case serviceObj of None \<Rightarrow> False | Some so \<Rightarrow> concrete ''awsKmsKeyArn'' so))"

definition onErrorGiven :: "jsobj \<Rightarrow> bool" where
  "onErrorGiven functionObj =
     (truthy (propOf functionObj ''onError'') \<and> \<not> isObject (propOf functionObj ''onError''))"

definition environmentSection :: "jsobj \<Rightarrow> jsobj \<Rightarrow> bool" where
  "environmentSection functionObj providerObj =
     (truthy (propOf functionObj ''environment'') \<or> truthy (propOf providerObj ''environment''))"

definition hasPlaceholder :: "jsobj \<Rightarrow> bool" where
  "hasPlaceholder variables = (\<exists>p \<in> set variables. isObject (snd p))"

text \<open>
  A map that lodash takes for a list: its entry \<open>length\<close> is a number that can be a
  length.
\<close>

definition arrayLike :: "jsobj \<Rightarrow> bool" where
  "arrayLike variables = (arrayLength variables \<noteq> None)"

text \<open>
  The environment stays in the patch: a section is given and the test of the method finds
  no structured value.
\<close>

definition environmentKept :: "jsobj \<Rightarrow> jsobj \<Rightarrow> bool" where
  "environmentKept functionObj providerObj =
     (environmentSection functionObj providerObj \<and>
      \<not> some (mergedVariables functionObj providerObj) isObject)"

definition environmentGiven :: "jsobj \<Rightarrow> jsobj \<Rightarrow> bool" where
  "environmentGiven functionObj providerObj =
     (environmentSection functionObj providerObj \<and>
      \<not> hasPlaceholder (mergedVariables functionObj providerObj))"

definition vpcGiven :: "jsobj \<Rightarrow> jsobj \<Rightarrow> bool" where
  "vpcGiven functionObj providerObj =
     ((truthy (propOf functionObj ''vpc'') \<or> truthy (propOf providerObj ''vpc'')) \<and>
      (plainList (memberOf (chosenVpc functionObj providerObj) ''securityGroupIds'') \<or>
       plainList (memberOf (chosenVpc functionObj providerObj) ''subnetIds'')))"

definition givesNothing :: "jsobj \<Rightarrow> jsobj option \<Rightarrow> jsobj \<Rightarrow> bool" where
  "givesNothing functionObj serviceObj providerObj =
     (\<not> kmsKeyGiven functionObj serviceObj \<and>
      \<not> concrete ''description'' functionObj \<and>
      \<not> concrete ''memorySize'' functionObj \<and> \<not> concrete ''memorySize'' providerObj \<and>
      \<not> concrete ''timeout'' functionObj \<and> \<not> concrete ''timeout'' providerObj \<and>
      \<not> onErrorGiven functionObj \<and>
      \<not> environmentGiven functionObj providerObj \<and>
      \<not> vpcGiven functionObj providerObj \<and>
      \<not> concrete ''role'' functionObj \<and> \<not> concrete ''role'' providerObj)"

text \<open>The parameters as they stand before the environment is looked at.\<close>

definition scalarParams :: "jsobj \<Rightarrow> jsobj option \<Rightarrow> jsobj \<Rightarrow> jsobj" where
  "scalarParams f s p =
     onErrorStep f (timeoutStep f p (memorySizeStep f p (descriptionStep f
       (kmsKeyStep f s [(''FunctionName'', propOf f ''name'')]))))"

text \<open>A function whose memory size is given, and is the one the platform has already.\<close>

definition sizedFunction :: jsobj where
  "sizedFunction = [(''name'', JStr ''svc-dev-fn''), (''memorySize'', JNum 512)]"

definition bareFunction :: jsobj where
  "bareFunction = [(''name'', JStr ''svc-dev-fn''), (''handler'', JStr ''index.handler'')]"

text \<open>The environment sections of the example of the specification.\<close>

definition envFunction :: jsobj where
  "envFunction =
     [(''name'', JStr ''svc-dev-fn''), (''environment'', JObj [(''A'', JStr ''1'')])]"

definition envProvider :: jsobj where
  "envProvider = [(''environment'', JObj [(''B'', JStr ''2''), (''A'', JStr ''x'')])]"

definition placeholderProvider :: jsobj where
  "placeholderProvider =
     [(''environment'', JObj [(''B'', JObj [(''Ref'', JStr ''Table'')]), (''1BAD'', JStr ''x'')])]"

definition badKeyProvider :: jsobj where
  "badKeyProvider = [(''environment'', JObj [(''1BAD'', JStr ''x'')])]"

text \<open>An environment with a structured value beside an entry \<open>length\<close>.\<close>

definition lengthProvider :: jsobj where
  "lengthProvider =
     [(''environment'',
       JObj [(''length'', JNum 0), (''TABLE'', JObj [(''Ref'', JStr ''Table'')])])]"

text \<open>A function placed in a network by its security groups alone.\<close>

definition groupsOnlyFunction :: jsobj where
  "groupsOnlyFunction =
     [(''name'', JStr ''svc-dev-fn''),
      (''vpc'', JObj [(''securityGroupIds'', JArr [JStr ''sg-1''])])]"

subsection \<open>Documents\<close>

text \<open>
  An operating system for the examples: a tree of directories without links. A path is
  followed segment by segment from the root or from the working directory; empty segments
  and single dots stay in place, two dots go up, and every directory on the way has to
  exist.
\<close>

definition renderPath :: "string list \<Rightarrow> string" where
  "renderPath segments = CHR ''/'' # joinWith ''/'' (rev segments)"

fun walk :: "string list \<Rightarrow> string list \<Rightarrow> string list \<Rightarrow> error + string" where
  "walk dirs here [] = Inr (renderPath here)"
| "walk dirs here (seg # segs) =
     (if seg = [] \<or> seg = ''.'' then walk dirs here segs
      else
        let next = (if seg = ''..'' then tl here else seg # here)
        in if renderPath next \<in> set dirs then walk dirs next segs
           else Inl (FsError ''ENOENT: no such file or directory, chdir''))"

definition resolveIn :: "string list \<Rightarrow> string \<Rightarrow> string \<Rightarrow> error + string" where
  "resolveIn dirs workingDirectory dir =
     (if take 1 dir = ''/'' then walk dirs [] (splitOn CHR ''/'' dir)
      else walk dirs (rev (filter (\<lambda>seg. seg \<noteq> []) (splitOn CHR ''/'' workingDirectory)))
             (splitOn CHR ''/'' dir))"

definition appDirectories :: "string list" where
  "appDirectories = [''/'', ''/srv'', ''/srv/app'', ''/home'', ''/home/user'']"

definition homeProcess :: process where
  "homeProcess = \<lparr>cwd = ''/home/user''\<rparr>"

text \<open>
  A reader and a resolver for the examples: the root document is an object with one
  entry, and the resolver puts the working directory it resolves against into the tree.
\<close>

definition exampleReadRoot :: "process \<Rightarrow> string \<Rightarrow> error + jsval" where
  "exampleReadRoot proc path = Inr (JObj [(''service'', JStr ''svc'')])"

definition exampleResolveRefs :: "process \<Rightarrow> jsval \<Rightarrow> error + jsval" where
  "exampleResolveRefs proc root =
     Inr (JObj (setKey ''resolvedAgainst'' (JStr (cwd proc)) (ownEntries root)))"

section \<open>The locator finds the latest deployment\<close>

lemma foldl_reduceStep:
  "foldl (reduceStep f) cur items = fold max (timesOf f items) cur"
proof (induction items arbitrary: cur)
  case Nil
  then show ?case by (simp add: timesOf_def)
next
  case (Cons item items)
  show ?case
  proof (cases "parsedTime (Key item)")
    case None
    then show ?thesis
      using Cons.IH [of cur] by (simp add: timesOf_def reduceStep_def)
  next
    case (Some g)
    have step: "reduceStep f cur item = max (f g) cur"
      using Some by (simp add: reduceStep_def Let_def max_def)
    show ?thesis
      using Some Cons.IH [of "max (f g) cur"] by (simp add: timesOf_def step)
  qed
qed

lemma fold_max_Max: "fold max ts (cur::int) = Max (insert cur (set ts))"
  using Max.set_eq_fold [of cur ts] by simp

text \<open>
  When the store serves a finite chain of pages, the pagination ends, and its value is the
  start value folded with every timestamp of every page.
\<close>

lemma searchLatest_serves:
  "serves prov this token pages \<Longrightarrow>
   searchLatest f prov this cur token = Some (Inr (fold max (extractedTimes f pages) cur))"
proof (induction pages arbitrary: cur token)
  case Nil
  then show ?case by simp
next
  case (Cons p ps)
  have req: "s3_listObjectsV2 prov (listParams this token) = Inr p"
    using Cons.prems by simp
  show ?case
  proof (cases "ps = []")
    case True
    then have "\<not> Truncated p" using Cons.prems by simp
    then show ?thesis
      using req True
      by (subst searchLatest.simps) (simp add: latestOf_def foldl_reduceStep extractedTimes_def)
  next
    case False
    then have tr: "Truncated p" and rest: "serves prov this (NextContinuationToken p) ps"
      using Cons.prems by simp_all
    have "searchLatest f prov this cur token
          = searchLatest f prov this (latestOf f cur p) (NextContinuationToken p)"
      using req tr by (subst searchLatest.simps) simp
    also have "\<dots> = Some (Inr (fold max (extractedTimes f ps) (latestOf f cur p)))"
      by (rule Cons.IH [OF rest])
    also have "fold max (extractedTimes f ps) (latestOf f cur p)
               = fold max (extractedTimes f (p # ps)) cur"
      by (simp add: latestOf_def foldl_reduceStep extractedTimes_def)
    finally show ?thesis .
  qed
qed

lemma searchLatest_Max:
  "serves prov this None pages \<Longrightarrow>
   searchLatest f prov this 0 None = Some (Inr (Max (insert 0 (set (extractedTimes f pages)))))"
  by (simp add: searchLatest_serves fold_max_Max)

lemma Max_insert_zero:
  assumes "ts \<noteq> []" and "0 < Max (set ts)"
  shows "Max (insert (0::int) (set ts)) = Max (set ts)"
  using assms by (simp add: Max_insert max_def)

lemma toISOString_in_range:
  "0 \<le> t \<Longrightarrow> t \<le> maxTimeValue \<Longrightarrow> \<exists>isoText. toISOString t = Inr isoText"
  by (simp add: toISOString_def maxTimeValue_def Let_def split: prod.splits)

lemma serves_examples:
  "serves pagedStore examplePlugin None [page1, page2, page3]"
  "serves zeroStore examplePlugin None [zeroPage]"
  "serves farStore examplePlugin None [farPage]"
  "serves emptyStore this None [emptyPage]"
  by (simp_all add: pagedStore_def zeroStore_def farStore_def emptyStore_def listParams_def
        page1_def page2_def page3_def zeroPage_def farPage_def emptyPage_def)

lemma times_examples:
  "extractedTimes digitsToInteger [page1, page2, page3]
     = [1500000000000, 1400000000000, 1600000000000, 1500000000000, 1300000000000]"
  "extractedTimes digitsToInteger [zeroPage] = [0]"
  "extractedTimes digitsToInteger [farPage] = [9000000000000000]"
  "extractedTimes digitsToInteger [emptyPage] = []"
  by code_simp+

text \<open>
  C1, as amended. Let the store serve any finite chain of pages from the first request on,
  each page but the last saying in the field \<open>Truncated\<close>, which is the field the
  method reads, that it is truncated. Let at least one key match, and let the largest of
  all timestamps of all pages be positive and a time value that a date can hold. Then
  both forms of the locator succeed, and the directory they record is built from that
  largest timestamp: not from the largest of a single page, nor of the last.
\<close>

theorem locator_records_global_maximum:
  assumes "serves prov this None pages"
    and "extractedTimes toInteger pages \<noteq> []"
    and "0 < Max (set (extractedTimes toInteger pages))"
    and "Max (set (extractedTimes toInteger pages)) \<le> maxTimeValue"
  shows "\<exists>isoText.
           toISOString (Max (set (extractedTimes toInteger pages))) = Inr isoText \<and>
           getLastDeploymentDirectory toInteger prov this
             = Some (Inr (this\<lparr>directory := Some
                 (''serverless/'' @ service this @ ''/'' @ stage this @ ''/''
                  @ numberToString (Max (set (extractedTimes toInteger pages)))
                  @ ''-'' @ isoText)\<rparr>)) \<and>
           setLastDeploymentDirectory toInteger prov this
             = Some (Inr (this\<lparr>lastDeploymentDirectory := Some
                 (''serverless/'' @ service this @ ''/'' @ stage this @ ''/''
                  @ numberToString (Max (set (extractedTimes toInteger pages)))
                  @ ''-'' @ isoText)\<rparr>))"
proof -
  let ?m = "Max (set (extractedTimes toInteger pages))"
  have found: "searchLatest toInteger prov this 0 None = Some (Inr ?m)"
    using searchLatest_Max [OF assms(1)] Max_insert_zero [OF assms(2,3)] by simp
  obtain isoText where iso: "toISOString ?m = Inr isoText"
    using toISOString_in_range [of ?m] assms(3,4) by auto
  have "getLastDeploymentDirectory toInteger prov this
          = Some (Inr (this\<lparr>directory := Some
              (''serverless/'' @ service this @ ''/'' @ stage this @ ''/''
               @ numberToString ?m @ ''-'' @ isoText)\<rparr>))"
    using found iso assms(3)
    by (simp add: getLastDeploymentDirectory_def deploymentDirectory_def)
  moreover have "setLastDeploymentDirectory toInteger prov this
          = Some (Inr (this\<lparr>lastDeploymentDirectory := Some
              (''serverless/'' @ service this @ ''/'' @ stage this @ ''/''
               @ numberToString ?m @ ''-'' @ isoText)\<rparr>))"
    using found iso assms(3)
    by (simp add: setLastDeploymentDirectory_def deploymentDirectory_def)
  ultimately show ?thesis using iso by blast
qed

theorem locator_records_global_maximum_witness:
  "getLastDeploymentDirectory digitsToInteger pagedStore examplePlugin
     = Some (Inr (examplePlugin\<lparr>directory := Some
         ''serverless/svc/dev/1600000000000-2020-09-13T12:26:40.000Z''\<rparr>)) \<and>
   setLastDeploymentDirectory digitsToInteger pagedStore examplePlugin
     = Some (Inr (examplePlugin\<lparr>lastDeploymentDirectory := Some
         ''serverless/svc/dev/1600000000000-2020-09-13T12:26:40.000Z''\<rparr>))"
proof -
  let ?ts = "extractedTimes digitsToInteger [page1, page2, page3]"
  have m: "Max (set ?ts) = 1600000000000"
    by (simp add: times_examples)
  have h2: "?ts \<noteq> []" by (simp add: times_examples)
  have h3: "0 < Max (set ?ts)" by (simp add: m)
  have h4: "Max (set ?ts) \<le> maxTimeValue" by (simp add: m maxTimeValue_def)
  have iso: "toISOString 1600000000000 = Inr ''2020-09-13T12:26:40.000Z''"
    by code_simp
  have n: "numberToString 1600000000000 = ''1600000000000''"
    by code_simp
  show ?thesis
    using locator_records_global_maximum [OF serves_examples(1) h2 h3 h4]
    by (simp add: m iso n examplePlugin_def)
qed

text \<open>
  C1 as it is written fails on two listings of one page. Where the only timestamp is
  \<open>0\<close>, the largest timestamp is \<open>0\<close> and the locator reports that there is no previous
  deployment. Where the only timestamp is past the last time value of a date, the locator
  fails when it renders the date.
\<close>

theorem locator_global_maximum_counterexample:
  "serves zeroStore examplePlugin None [zeroPage] \<and>
   extractedTimes digitsToInteger [zeroPage] = [0] \<and>
   getLastDeploymentDirectory digitsToInteger zeroStore examplePlugin
     = Some (Inl (ServerlessError ''Could not find a previous service deployment'')) \<and>
   serves farStore examplePlugin None [farPage] \<and>
   extractedTimes digitsToInteger [farPage] = [9000000000000000] \<and>
   getLastDeploymentDirectory digitsToInteger farStore examplePlugin
     = Some (Inl (RangeError ''Invalid time value''))"
proof -
  have z: "searchLatest digitsToInteger zeroStore examplePlugin 0 None = Some (Inr 0)"
    using searchLatest_Max [OF serves_examples(2), of digitsToInteger]
    by (simp add: times_examples)
  have f: "searchLatest digitsToInteger farStore examplePlugin 0 None
             = Some (Inr 9000000000000000)"
    using searchLatest_Max [OF serves_examples(3), of digitsToInteger]
    by (simp add: times_examples)
  have d: "deploymentDirectory examplePlugin 9000000000000000
             = Inl (RangeError ''Invalid time value'')"
    by (simp add: deploymentDirectory_def toISOString_def maxTimeValue_def)
  show ?thesis
    using serves_examples(2) serves_examples(3)
    by (simp add: times_examples getLastDeploymentDirectory_def z f d noPreviousDeployment_def)
qed

text \<open>
  The flag of the object store itself is not read. A first page without the field
  \<open>Truncated\<close> ends the search, whatever its field \<open>IsTruncated\<close> and its
  continuation token say. On the two pages that the store of the example sends, the
  directory is built from the timestamp of the first page, and the larger timestamp of the
  second page is never asked for. The theorem above is about pages that say in
  \<open>Truncated\<close> that they are truncated, and says nothing about such listings.
\<close>

lemma searchLatest_first_page_only:
  assumes "s3_listObjectsV2 prov (listParams this None) = Inr p" and "\<not> Truncated p"
  shows "searchLatest f prov this 0 None = Some (Inr (Max (insert 0 (set (timesOf f (contentOf p))))))"
proof -
  have "serves prov this None [p]"
    using assms by simp
  then show ?thesis
    using searchLatest_Max [of prov this "[p]" f] by (simp add: extractedTimes_def)
qed

lemma object_store_pages_example:
  "IsTruncated storePage1 \<and>
   s3_listObjectsV2 objectStore (listParams examplePlugin (NextContinuationToken storePage1))
     = Inr storePage2 \<and>
   extractedTimes digitsToInteger [storePage1, storePage2] = [1500000000000, 1600000000000] \<and>
   getLastDeploymentDirectory digitsToInteger objectStore examplePlugin
     = Some (Inr (examplePlugin\<lparr>directory := Some
         ''serverless/svc/dev/1500000000000-2017-07-14T02:40:00.000Z''\<rparr>))"
proof -
  have first: "s3_listObjectsV2 objectStore (listParams examplePlugin None) = Inr storePage1"
    "\<not> Truncated storePage1"
    by (simp_all add: objectStore_def offline_def listParams_def storePage1_def)
  have ts: "timesOf digitsToInteger (contentOf storePage1) = [1500000000000]"
    "extractedTimes digitsToInteger [storePage1, storePage2] = [1500000000000, 1600000000000]"
    by code_simp+
  have found: "searchLatest digitsToInteger objectStore examplePlugin 0 None
                 = Some (Inr 1500000000000)"
    using searchLatest_first_page_only [OF first, of digitsToInteger] by (simp add: ts)
  have dir: "deploymentDirectory examplePlugin 1500000000000
               = Inr ''serverless/svc/dev/1500000000000-2017-07-14T02:40:00.000Z''"
    by code_simp
  have more: "IsTruncated storePage1"
    "s3_listObjectsV2 objectStore (listParams examplePlugin (NextContinuationToken storePage1))
       = Inr storePage2"
    by (simp_all add: objectStore_def offline_def listParams_def storePage1_def)
  show ?thesis
    using more by (simp add: ts getLastDeploymentDirectory_def found dir)
qed

text \<open>
  C10. Whenever the value accumulated over all pages is zero, and so also when entries
  match but each of their timestamps is \<open>0\<close>, both forms of the locator fail with the
  error of a missing previous deployment, which is the very outcome of a listing without
  entries.
\<close>

theorem zero_maximum_is_no_deployment:
  assumes "serves prov this None pages"
    and "Max (insert 0 (set (extractedTimes toInteger pages))) = 0"
  shows "getLastDeploymentDirectory toInteger prov this = Some (Inl noPreviousDeployment) \<and>
         setLastDeploymentDirectory toInteger prov this = Some (Inl noPreviousDeployment) \<and>
         getLastDeploymentDirectory toInteger prov this
           = getLastDeploymentDirectory toInteger emptyStore this \<and>
         setLastDeploymentDirectory toInteger prov this
           = setLastDeploymentDirectory toInteger emptyStore this"
proof -
  have found: "searchLatest toInteger prov this 0 None = Some (Inr 0)"
    using searchLatest_Max [OF assms(1), of toInteger] assms(2) by simp
  have "extractedTimes toInteger [emptyPage] = []"
    by (simp add: extractedTimes_def timesOf_def contentOf_def emptyPage_def)
  then have none: "searchLatest toInteger emptyStore this 0 None = Some (Inr 0)"
    using searchLatest_Max [OF serves_examples(4), of toInteger] by simp
  show ?thesis
    using found none
    by (simp add: getLastDeploymentDirectory_def setLastDeploymentDirectory_def)
qed

theorem zero_maximum_is_no_deployment_witness:
  "extractedTimes digitsToInteger [zeroPage] = [0] \<and>
   getLastDeploymentDirectory digitsToInteger zeroStore examplePlugin
     = Some (Inl (ServerlessError ''Could not find a previous service deployment'')) \<and>
   setLastDeploymentDirectory digitsToInteger zeroStore examplePlugin
     = Some (Inl (ServerlessError ''Could not find a previous service deployment''))"
proof -
  have h: "Max (insert 0 (set (extractedTimes digitsToInteger [zeroPage]))) = 0"
    by (simp add: times_examples)
  show ?thesis
    using zero_maximum_is_no_deployment [OF serves_examples(2) h]
    by (simp add: times_examples noPreviousDeployment_def)
qed

section \<open>The template fetch checks the response\<close>

text \<open>
  C4. Let the object store answer the request of the method with any response. Unless the
  content type is \<open>application/json\<close>, the content length is positive and a body is
  there, both forms of the method fail and leave the state as it was. When all three hold,
  the body is handed to \<open>JSON.parse\<close>: a syntax error is the outcome, or the tree is
  stored as the template. With the content type \<open>application/json\<close>, the content
  length \<open>2\<close> and the body \<open>{}\<close>, the stored template is the empty tree, given
  that \<open>JSON.parse\<close> reads \<open>{}\<close> as the empty tree.
\<close>

theorem template_fetch_checks_response:
  assumes "s3_getObject prov (getObjectParams bucketObject this (directory this)) = Inr response"
    and "s3_getObject prov (getObjectParams bucketObject this (lastDeploymentDirectory this))
           = Inr response"
  shows "(\<not> (ContentType response = Some ''application/json'' \<and>
             (\<exists>n. ContentLength response = Some n \<and> 0 < n) \<and>
             (\<exists>b. Body response = Some b)) \<longrightarrow>
            downloadTemplateFromS3 JSON_parse prov bucketObject this
              = (this, Inl templateUnavailable) \<and>
            downloadTemplateFromS3_published JSON_parse prov bucketObject this
              = (this, Inl templateUnavailable)) \<and>
         (\<forall>n b. ContentType response = Some ''application/json'' \<and>
                ContentLength response = Some n \<and> 0 < n \<and> Body response = Some b \<longrightarrow>
            downloadTemplateFromS3 JSON_parse prov bucketObject this
              = receiveTemplate JSON_parse this response \<and>
            downloadTemplateFromS3_published JSON_parse prov bucketObject this
              = receiveTemplate JSON_parse this response \<and>
            snd (receiveTemplate JSON_parse this response)
              = (case JSON_parse b of Inl e \<Rightarrow> Inl e | Inr tree \<Rightarrow> Inr ()) \<and>
            (\<forall>tree. JSON_parse b = Inr tree \<longrightarrow>
               template (fst (receiveTemplate JSON_parse this response)) = Some tree)) \<and>
         (ContentType response = Some ''application/json'' \<and>
          ContentLength response = Some 2 \<and> Body response = Some ''{}'' \<and>
          JSON_parse ''{}'' = Inr (JObj []) \<longrightarrow>
            snd (downloadTemplateFromS3 JSON_parse prov bucketObject this) = Inr () \<and>
            template (fst (downloadTemplateFromS3 JSON_parse prov bucketObject this))
              = Some (JObj []) \<and>
            snd (downloadTemplateFromS3_published JSON_parse prov bucketObject this) = Inr () \<and>
            template (fst (downloadTemplateFromS3_published JSON_parse prov bucketObject this))
              = Some (JObj []))"
proof -
  have d1: "downloadTemplateFromS3 JSON_parse prov bucketObject this
              = receiveTemplate JSON_parse this response"
    using assms(1) by (simp add: downloadTemplateFromS3_def fetchTemplate_def)
  have d2: "downloadTemplateFromS3_published JSON_parse prov bucketObject this
              = receiveTemplate JSON_parse this response"
    using assms(2) by (simp add: downloadTemplateFromS3_published_def fetchTemplate_def)
  have rejected:
    "\<not> (ContentType response = Some ''application/json'' \<and>
        (\<exists>n. ContentLength response = Some n \<and> 0 < n) \<and>
        (\<exists>b. Body response = Some b)) \<Longrightarrow>
     receiveTemplate JSON_parse this response = (this, Inl templateUnavailable)"
    by (auto simp: receiveTemplate_def responseRejected_def split: option.splits)
  have accepted:
    "ContentType response = Some ''application/json'' \<Longrightarrow> ContentLength response = Some n \<Longrightarrow>
     0 < n \<Longrightarrow> Body response = Some b \<Longrightarrow>
     receiveTemplate JSON_parse this response
       = (case JSON_parse b of
            Inl e \<Rightarrow> (this\<lparr>templateHash :=
                         Some (case filesha256 response of None \<Rightarrow> [] | Some h \<Rightarrow> h)\<rparr>, Inl e)
          | Inr tree \<Rightarrow>
              (this\<lparr>templateHash :=
                       Some (case filesha256 response of None \<Rightarrow> [] | Some h \<Rightarrow> h),
                    template := Some tree\<rparr>, Inr ()))" for n b
    by (simp add: receiveTemplate_def responseRejected_def Let_def split: sum.splits)
  have parsed:
    "ContentType response = Some ''application/json'' \<Longrightarrow> ContentLength response = Some n \<Longrightarrow>
     0 < n \<Longrightarrow> Body response = Some b \<Longrightarrow>
     snd (receiveTemplate JSON_parse this response)
       = (case JSON_parse b of Inl e \<Rightarrow> Inl e | Inr tree \<Rightarrow> Inr ()) \<and>
     (\<forall>tree. JSON_parse b = Inr tree \<longrightarrow>
        template (fst (receiveTemplate JSON_parse this response)) = Some tree)" for n b
    by (simp add: accepted split: sum.splits)
  have example:
    "ContentType response = Some ''application/json'' \<Longrightarrow> ContentLength response = Some 2 \<Longrightarrow>
     Body response = Some ''{}'' \<Longrightarrow> JSON_parse ''{}'' = Inr (JObj []) \<Longrightarrow>
     snd (receiveTemplate JSON_parse this response) = Inr () \<and>
     template (fst (receiveTemplate JSON_parse this response)) = Some (JObj [])"
    using parsed [of 2 "''{}''"] by simp
  show ?thesis
    unfolding d1 d2 using rejected parsed example by blast
qed

theorem template_fetch_checks_response_witness:
  "downloadTemplateFromS3 jsonParse templateStore JUndefined locatedPlugin
     = (locatedPlugin\<lparr>templateHash := Some [], template := Some (JObj [])\<rparr>, Inr ()) \<and>
   downloadTemplateFromS3_published jsonParse templateStore JUndefined locatedPlugin
     = (locatedPlugin\<lparr>templateHash := Some [], template := Some (JObj [])\<rparr>, Inr ())"
proof -
  have g: "s3_getObject templateStore params = Inr emptyTemplateResponse" for params
    by (simp add: templateStore_def)
  have j: "jsonParse ''{}'' = Inr (JObj [])"
    by code_simp
  have r: "receiveTemplate jsonParse locatedPlugin emptyTemplateResponse
             = (locatedPlugin\<lparr>templateHash := Some [], template := Some (JObj [])\<rparr>, Inr ())"
    by (simp add: receiveTemplate_def responseRejected_def emptyTemplateResponse_def j)
  have f: "ContentType emptyTemplateResponse = Some ''application/json'' \<and>
           ContentLength emptyTemplateResponse = Some 2 \<and> (0::int) < 2 \<and>
           Body emptyTemplateResponse = Some ''{}''"
    by (simp add: emptyTemplateResponse_def)
  show ?thesis
    using template_fetch_checks_response [where prov = templateStore and bucketObject = JUndefined
            and this = locatedPlugin and JSON_parse = jsonParse
            and response = emptyTemplateResponse, OF g g] f r
    by simp
qed

section \<open>The role resolver\<close>

text \<open>
  C7, as amended. A role given as a string comes back unchanged, as a fulfilled result and
  without any call to the platform, exactly when the string contains a colon. A string
  without a colon is taken as the name of a resource: it ends in an error or asks for the
  account identifier.
\<close>

theorem literal_arn_unchanged:
  "(CHR '':'' \<in> set r \<longrightarrow> normalizeArnRole prov resources (JStr r) = ([], Inr (JStr r))) \<and>
   (CHR '':'' \<notin> set r \<longrightarrow>
      (\<exists>e. normalizeArnRole prov resources (JStr r) = ([], Inl e)) \<or>
      fst (normalizeArnRole prov resources (JStr r)) = [GetAccountId])"
  by (simp add: normalizeArnRole_def split: sum.splits)

theorem literal_arn_unchanged_witness:
  "CHR '':'' \<in> set ''arn:aws:iam::123456789012:role/deployer'' \<and>
   normalizeArnRole offline roleResources (JStr ''arn:aws:iam::123456789012:role/deployer'')
     = ([], Inr (JStr ''arn:aws:iam::123456789012:role/deployer''))"
  using literal_arn_unchanged [of "''arn:aws:iam::123456789012:role/deployer''" offline roleResources]
  by simp

text \<open>
  C7 as it is written fails: the string \<open>DeployRole\<close> has no colon, and the resolver
  asks for the account identifier and answers with an ARN built from the resource.
\<close>

theorem literal_without_colon_counterexample:
  "CHR '':'' \<notin> set ''DeployRole'' \<and>
   normalizeArnRole accountProvider roleResources (JStr ''DeployRole'')
     = ([GetAccountId], Inr (JStr ''arn:aws:iam::123456789012:role/deployer''))"
  by code_simp

text \<open>
  A role named like a property that every object inherits is no resource: what is read is
  a built-in without a type, and the resolver says that the resource is no role.
\<close>

lemma inherited_name_is_no_role:
  "normalizeArnRole accountProvider roleResources (JStr ''toString'') = ([], Inl notIamRole) \<and>
   (\<exists>e. normalizeArnRole accountProvider roleResources (JStr ''OtherRole'')
           = ([], Inl (TypeError e)))"
  by (simp add: normalizeArnRole_def compiledFullRoleName_def readProperty_def
        objectPrototypeKeys_def hasLength_def roleResources_def ownEntries_def getProp_def
        memberOf_def propOf_def nullish_def)

section \<open>The code upload depends on the digest\<close>

text \<open>
  C6. Let the artifact be readable and the descriptor carry a code hash. Then the upload
  call is issued if and only if the force flag counts as true or the digest of the
  artifact differs from the recorded hash, and no call at all is issued otherwise. With an
  equal digest and no force the method succeeds without a call, and so do two calls in a
  row, since the method writes neither the files nor the descriptor. Whenever the upload
  is issued, it is the one call, it carries the name of the function and the bytes of the
  artifact, and the outcome of the method is the answer of the platform: success when the
  platform acknowledges the upload, and its error otherwise. So with the force flag and an
  acknowledging platform the method uploads and succeeds whatever the hash.
\<close>

theorem upload_iff_forced_or_changed:
  assumes "readFileSync fs (artifactFilePath packageArtifact defaultPath functionObject) = Inr data"
    and "codeSha256 providerObj = Inr remoteHash"
  shows "(fst (deployFunction prov digest fs packageArtifact defaultPath functionObject
                 providerObj options)
            = [LambdaUpdateFunctionCode (propOf (options_functionObj options) ''name'') data]
          \<longleftrightarrow> truthy (options_force options) \<or> remoteHash \<noteq> JStr (digest data)) \<and>
         (fst (deployFunction prov digest fs packageArtifact defaultPath functionObject
                 providerObj options) = []
          \<longleftrightarrow> \<not> (truthy (options_force options) \<or> remoteHash \<noteq> JStr (digest data))) \<and>
         (\<not> truthy (options_force options) \<and> remoteHash = JStr (digest data) \<longrightarrow>
            deployFunction prov digest fs packageArtifact defaultPath functionObject
              providerObj options = ([], Inr ()) \<and>
            deployTwice prov digest fs packageArtifact defaultPath functionObject
              providerObj options = ([], Inr (), Inr ())) \<and>
         (truthy (options_force options) \<longrightarrow>
            fst (deployFunction prov digest fs packageArtifact defaultPath functionObject
                   providerObj options)
              = [LambdaUpdateFunctionCode (propOf (options_functionObj options) ''name'') data]) \<and>
         (truthy (options_force options) \<or> remoteHash \<noteq> JStr (digest data) \<longrightarrow>
            deployFunction prov digest fs packageArtifact defaultPath functionObject
              providerObj options
              = ([LambdaUpdateFunctionCode (propOf (options_functionObj options) ''name'') data],
                 (case lambda_updateFunctionCode prov
                         (propOf (options_functionObj options) ''name'') data of
                    Inl e \<Rightarrow> Inl e
                  | Inr ack \<Rightarrow> Inr ()))) \<and>
         (\<forall>ack. truthy (options_force options) \<and>
                lambda_updateFunctionCode prov (propOf (options_functionObj options) ''name'') data
                  = Inr ack \<longrightarrow>
            deployFunction prov digest fs packageArtifact defaultPath functionObject
              providerObj options
              = ([LambdaUpdateFunctionCode (propOf (options_functionObj options) ''name'') data],
                 Inr ())) \<and>
         (\<forall>e. (truthy (options_force options) \<or> remoteHash \<noteq> JStr (digest data)) \<and>
              lambda_updateFunctionCode prov (propOf (options_functionObj options) ''name'') data
                = Inl e \<longrightarrow>
            deployFunction prov digest fs packageArtifact defaultPath functionObject
              providerObj options
              = ([LambdaUpdateFunctionCode (propOf (options_functionObj options) ''name'') data],
                 Inl e))"
  using assms by (auto simp: deployFunction_def deployTwice_def Let_def)

theorem upload_iff_forced_or_changed_witness:
  "deployFunction acceptingProvider exampleDigest exampleFiles JUndefined ''.serverless/fn.zip''
     JUndefined deployedProvider plainOptions = ([], Inr ()) \<and>
   deployTwice acceptingProvider exampleDigest exampleFiles JUndefined ''.serverless/fn.zip''
     JUndefined deployedProvider plainOptions = ([], Inr (), Inr ()) \<and>
   deployFunction acceptingProvider exampleDigest exampleFiles JUndefined ''.serverless/fn.zip''
     JUndefined deployedProvider forcedOptions
     = ([LambdaUpdateFunctionCode (JStr ''svc-dev-fn'') ''abc''], Inr ()) \<and>
   deployFunction offline exampleDigest exampleFiles JUndefined ''.serverless/fn.zip''
     JUndefined deployedProvider forcedOptions
     = ([LambdaUpdateFunctionCode (JStr ''svc-dev-fn'') ''abc''], Inl (TransportError ''offline''))"
proof -
  have r: "readFileSync exampleFiles (artifactFilePath JUndefined ''.serverless/fn.zip'' JUndefined)
             = Inr ''abc''"
    by (simp add: readFileSync_def artifactFilePath_def hasArtifact_def exampleFiles_def)
  have h: "codeSha256 deployedProvider = Inr (JStr ''ungWv48Bz+pBQUDeXa4iI7ADYaOWF3qctBD/YfIAFa0='')"
    by (simp add: codeSha256_def deployedProvider_def getProp_def memberOf_def propOf_def
          nullish_def)
  have d: "exampleDigest ''abc'' = ''ungWv48Bz+pBQUDeXa4iI7ADYaOWF3qctBD/YfIAFa0=''"
    by (simp add: exampleDigest_def)
  have a: "lambda_updateFunctionCode acceptingProvider (JStr ''svc-dev-fn'') ''abc'' = Inr (JObj [])"
    "lambda_updateFunctionCode offline (JStr ''svc-dev-fn'') ''abc''
       = Inl (TransportError ''offline'')"
    by (simp_all add: acceptingProvider_def offline_def)
  show ?thesis
    using upload_iff_forced_or_changed [OF r h, of acceptingProvider exampleDigest plainOptions]
      upload_iff_forced_or_changed [OF r h, of acceptingProvider exampleDigest forcedOptions]
      upload_iff_forced_or_changed [OF r h, of offline exampleDigest forcedOptions]
    by (simp add: d a plainOptions_def forcedOptions_def propOf_def)
qed

section \<open>The configuration update\<close>

subsection \<open>Objects\<close>

lemma keys_setKey: "fst ` set (setKey k v ps) = insert k (fst ` set ps)"
  by (induction ps) auto

lemma keys_deleteKey: "fst ` set (deleteKey k ps) = fst ` set ps - {k}"
  by (auto simp: deleteKey_def)

lemma omit_empty_iff: "omit ps k = [] \<longleftrightarrow> fst ` set ps \<subseteq> {k}"
  by (auto simp: omit_def filter_empty_conv)

lemma hasKey_iff: "hasKey k ps \<longleftrightarrow> k \<in> fst ` set ps"
  by (simp add: hasKey_def map_of_eq_None_iff)

lemma map_of_setKey: "map_of (setKey k v ps) = (map_of ps)(k \<mapsto> v)"
  by (induction ps) auto

lemma map_of_deleteKey: "map_of (deleteKey k ps) = (map_of ps)(k := None)"
  by (induction ps) (auto simp: deleteKey_def)

lemma propOf_setKey: "propOf (setKey k v ps) k' = (if k' = k then v else propOf ps k')"
  by (simp add: propOf_def map_of_setKey)

lemma hasKey_setKey: "hasKey k' (setKey k v ps) \<longleftrightarrow> k' = k \<or> hasKey k' ps"
  by (auto simp: hasKey_def map_of_setKey)

lemma concrete_setKey: "k' \<noteq> k \<Longrightarrow> concrete k' (setKey k v ps) = concrete k' ps"
  by (simp add: concrete_def hasKey_setKey propOf_setKey)

lemma deleteKey_setKey_fresh: "k \<notin> fst ` set ps \<Longrightarrow> deleteKey k (setKey k v ps) = ps"
  by (induction ps) (auto simp: deleteKey_def)

lemma map_of_assign: "map_of (assign target entries) = map_of target ++ map_of (rev entries)"
proof (induction entries arbitrary: target)
  case Nil
  then show ?case by (simp add: assign_def)
next
  case (Cons e es)
  have "map_of (assign target (e # es)) = map_of (assign (setKey (fst e) (snd e) target) es)"
    by (simp add: assign_def)
  also have "\<dots> = map_of (setKey (fst e) (snd e) target) ++ map_of (rev es)"
    by (rule Cons.IH)
  also have "\<dots> = map_of target ++ map_of (rev (e # es))"
    by (cases e) (simp add: map_of_setKey map_add_def fun_eq_iff split: option.splits)
  finally show ?case .
qed

lemma map_of_rev_distinct: "distinct (map fst ps) \<Longrightarrow> map_of (rev ps) = map_of ps"
  by (subst map_of_inject_set) (simp_all add: rev_map [symmetric])

text \<open>On a map that is not taken for a list, the test looks at every value.\<close>

lemma some_every_value:
  "\<not> arrayLike vs \<Longrightarrow> some vs isObject = hasPlaceholder vs"
  by (simp add: some_def arrayLike_def hasPlaceholder_def list_ex_iff)

lemma environmentKept_given:
  "\<not> arrayLike (mergedVariables f p) \<Longrightarrow> environmentKept f p = environmentGiven f p"
  by (simp add: environmentKept_def environmentGiven_def some_every_value)

subsection \<open>The keys each step adds\<close>

lemma keys_kmsKeyStep:
  "fst ` set (kmsKeyStep f s ps)
     = fst ` set ps \<union> (if kmsKeyGiven f s then {''KMSKeyArn''} else {})"
  by (auto simp: kmsKeyStep_def kmsKeyGiven_def keys_setKey split: option.splits)

lemma keys_descriptionStep:
  "fst ` set (descriptionStep f ps)
     = fst ` set ps \<union> (if concrete ''description'' f then {''Description''} else {})"
  by (auto simp: descriptionStep_def keys_setKey)

lemma keys_memorySizeStep:
  "fst ` set (memorySizeStep f p ps)
     = fst ` set ps \<union> (if concrete ''memorySize'' f \<or> concrete ''memorySize'' p
                         then {''MemorySize''} else {})"
  by (auto simp: memorySizeStep_def keys_setKey)

lemma keys_timeoutStep:
  "fst ` set (timeoutStep f p ps)
     = fst ` set ps \<union> (if concrete ''timeout'' f \<or> concrete ''timeout'' p
                         then {''Timeout''} else {})"
  by (auto simp: timeoutStep_def keys_setKey)

lemma keys_onErrorStep:
  "fst ` set (onErrorStep f ps)
     = fst ` set ps \<union> (if onErrorGiven f then {''DeadLetterConfig''} else {})"
  by (auto simp: onErrorStep_def onErrorGiven_def keys_setKey)

lemma environmentStep_cases:
  "environmentStep f p ps =
     (if \<not> environmentSection f p then Inr ps
      else if some (mergedVariables f p) isObject
      then Inr (deleteKey ''Environment''
                  (setKey ''Environment'' (JObj [(''Variables'', JObj (mergedVariables f p))]) ps))
      else if \<forall>k \<in> fst ` set (mergedVariables f p). validEnvKey k
      then Inr (setKey ''Environment'' (JObj [(''Variables'', JObj (mergedVariables f p))]) ps)
      else Inl invalidEnvironment)"
  by (auto simp: environmentStep_def environmentSection_def Let_def list_all_iff)

lemma keys_environmentStep:
  assumes "environmentStep f p ps = Inr ps'" and "''Environment'' \<notin> fst ` set ps"
  shows "fst ` set ps'
           = fst ` set ps \<union> (if environmentKept f p then {''Environment''} else {})"
proof -
  let ?env = "JObj [(''Variables'', JObj (mergedVariables f p))]"
  consider (none) "\<not> environmentSection f p" "ps' = ps"
    | (dropped) "environmentSection f p" "some (mergedVariables f p) isObject"
        "ps' = deleteKey ''Environment'' (setKey ''Environment'' ?env ps)"
    | (kept) "environmentSection f p" "\<not> some (mergedVariables f p) isObject"
        "ps' = setKey ''Environment'' ?env ps"
    using assms(1) by (auto simp: environmentStep_cases split: if_splits)
  then show ?thesis
  proof cases
    case none
    then show ?thesis by (simp add: environmentKept_def)
  next
    case dropped
    then show ?thesis
      using assms(2) by (simp add: environmentKept_def deleteKey_setKey_fresh)
  next
    case kept
    then show ?thesis by (simp add: environmentKept_def keys_setKey)
  qed
qed

lemma vpcConfigOf_empty:
  "vpcConfigOf vpc = [] \<longleftrightarrow>
     \<not> (plainList (memberOf vpc ''securityGroupIds'') \<or> plainList (memberOf vpc ''subnetIds''))"
  by (auto simp: vpcConfigOf_def Let_def)

lemma vpcStep_cases:
  "vpcStep f p ps =
     (if vpcGiven f p
      then setKey ''VpcConfig'' (JObj (vpcConfigOf (chosenVpc f p))) ps
      else if truthy (propOf f ''vpc'') \<or> truthy (propOf p ''vpc'')
      then deleteKey ''VpcConfig'' (setKey ''VpcConfig'' (JObj []) ps)
      else ps)"
  using vpcConfigOf_empty [of "chosenVpc f p"]
  by (auto simp: vpcStep_def vpcGiven_def Let_def)

lemma keys_vpcStep:
  assumes "''VpcConfig'' \<notin> fst ` set ps"
  shows "fst ` set (vpcStep f p ps)
           = fst ` set ps \<union> (if vpcGiven f p then {''VpcConfig''} else {})"
  using assms by (simp add: vpcStep_cases keys_setKey deleteKey_setKey_fresh)

lemma map_of_vpcStep_other:
  "k \<noteq> ''VpcConfig'' \<Longrightarrow> map_of (vpcStep f p ps) k = map_of ps k"
  by (simp add: vpcStep_cases map_of_setKey map_of_deleteKey)

lemma keys_scalarParams:
  "fst ` set (scalarParams f s p)
     = {''FunctionName''}
       \<union> (if kmsKeyGiven f s then {''KMSKeyArn''} else {})
       \<union> (if concrete ''description'' f then {''Description''} else {})
       \<union> (if concrete ''memorySize'' f \<or> concrete ''memorySize'' p then {''MemorySize''} else {})
       \<union> (if concrete ''timeout'' f \<or> concrete ''timeout'' p then {''Timeout''} else {})
       \<union> (if onErrorGiven f then {''DeadLetterConfig''} else {})"
  unfolding scalarParams_def keys_onErrorStep keys_timeoutStep keys_memorySizeStep
    keys_descriptionStep keys_kmsKeyStep
  by simp

lemma buildParams_cases:
  "buildParams f s p =
     (case environmentStep f p (scalarParams f s p) of
        Inl e \<Rightarrow> Inl e
      | Inr params6 \<Rightarrow> Inr (vpcStep f p params6))"
  by (simp add: buildParams_def scalarParams_def Let_def)

lemma keys_buildParams:
  assumes "buildParams f s p = Inr params"
  shows "fst ` set params
           = fst ` set (scalarParams f s p)
             \<union> (if environmentKept f p then {''Environment''} else {})
             \<union> (if vpcGiven f p then {''VpcConfig''} else {})"
proof -
  obtain params6 where e: "environmentStep f p (scalarParams f s p) = Inr params6"
    and v: "params = vpcStep f p params6"
    using assms by (auto simp: buildParams_cases split: sum.splits)
  have noEnv: "''Environment'' \<notin> fst ` set (scalarParams f s p)"
    by (simp add: keys_scalarParams)
  have k6: "fst ` set params6
              = fst ` set (scalarParams f s p)
                \<union> (if environmentKept f p then {''Environment''} else {})"
    by (rule keys_environmentStep [OF e noEnv])
  have noVpc: "''VpcConfig'' \<notin> fst ` set params6"
    by (simp add: k6 keys_scalarParams)
  show ?thesis
    by (simp add: v keys_vpcStep [OF noVpc] k6)
qed

lemma scalarParams_nothing:
  assumes "\<not> kmsKeyGiven f s" and "\<not> concrete ''description'' f"
    and "\<not> concrete ''memorySize'' f" and "\<not> concrete ''memorySize'' p"
    and "\<not> concrete ''timeout'' f" and "\<not> concrete ''timeout'' p"
    and "\<not> onErrorGiven f"
  shows "scalarParams f s p = [(''FunctionName'', propOf f ''name'')]"
  using assms
  by (auto simp: scalarParams_def kmsKeyStep_def kmsKeyGiven_def descriptionStep_def
        memorySizeStep_def timeoutStep_def onErrorStep_def onErrorGiven_def
        split: option.splits)

lemma buildParams_nothing:
  assumes "givesNothing f s p" and "\<not> arrayLike (mergedVariables f p)"
  shows "buildParams f s p = Inr [(''FunctionName'', propOf f ''name'')]"
proof -
  let ?ps = "[(''FunctionName'', propOf f ''name'')]"
  have sc: "scalarParams f s p = ?ps"
    using assms(1) by (intro scalarParams_nothing) (simp_all add: givesNothing_def)
  have env: "environmentStep f p ?ps = Inr ?ps"
    using assms
    by (simp add: environmentStep_cases givesNothing_def environmentGiven_def
          some_every_value deleteKey_def)
  have vpc: "vpcStep f p ?ps = ?ps"
    using assms(1) by (simp add: vpcStep_cases givesNothing_def deleteKey_def)
  show ?thesis
    by (simp add: buildParams_cases sc env vpc)
qed

lemma normalizeArnRole_calls:
  "LambdaUpdateFunctionConfiguration ps \<notin> set (fst (normalizeArnRole prov res role))"
  by (auto simp: normalizeArnRole_def split: jsval.splits sum.splits if_splits)

lemma updateWithRole_calls:
  assumes "LambdaUpdateFunctionConfiguration ps \<in> set (fst (updateWithRole prov res role params))"
  shows "\<exists>arn. ps = setKey ''Role'' arn params"
proof (cases "normalizeArnRole prov res role")
  case (Pair calls outcome)
  have no: "LambdaUpdateFunctionConfiguration ps \<notin> set calls"
    using normalizeArnRole_calls [of ps prov res role] Pair by simp
  show ?thesis
    using assms Pair no
    by (cases outcome) (auto simp: updateWithRole_def callUpdateFunctionConfiguration_def)
qed

lemma updateWithRole_not_noop: "updateWithRole prov res role params \<noteq> ([], Inr ())"
proof (cases "normalizeArnRole prov res role")
  case (Pair calls outcome)
  then show ?thesis
    by (cases outcome) (auto simp: updateWithRole_def callUpdateFunctionConfiguration_def)
qed

lemma omit_setKey_other: "k \<noteq> k' \<Longrightarrow> omit (setKey k v ps) k' \<noteq> []"
  by (simp add: omit_empty_iff keys_setKey)

subsection \<open>An empty patch is not sent\<close>

text \<open>
  C3. For every desired configuration: if the parameters hold nothing beyond the function
  name once every rule has been applied, the role rule among them, then no call is made
  and the method succeeds. And every update call that the method issues holds something
  beyond the function name.
\<close>

theorem empty_patch_is_noop:
  "(\<forall>params. buildParams f s p = Inr params \<and> \<not> concrete ''role'' f \<and> \<not> concrete ''role'' p \<and>
             omit params ''FunctionName'' = [] \<longrightarrow>
      updateFunctionConfiguration prov res f s p = ([], Inr ())) \<and>
   (\<forall>params. LambdaUpdateFunctionConfiguration params
               \<in> set (fst (updateFunctionConfiguration prov res f s p)) \<longrightarrow>
      omit params ''FunctionName'' \<noteq> [])"
proof (intro conjI allI impI)
  fix params
  assume "buildParams f s p = Inr params \<and> \<not> concrete ''role'' f \<and> \<not> concrete ''role'' p \<and>
          omit params ''FunctionName'' = []"
  then show "updateFunctionConfiguration prov res f s p = ([], Inr ())"
    by (simp add: updateFunctionConfiguration_def)
next
  fix ps
  assume sent: "LambdaUpdateFunctionConfiguration ps
                  \<in> set (fst (updateFunctionConfiguration prov res f s p))"
  show "omit ps ''FunctionName'' \<noteq> []"
  proof (cases "buildParams f s p")
    case (Inl e)
    then show ?thesis using sent by (simp add: updateFunctionConfiguration_def)
  next
    case (Inr params)
    consider (frole) "concrete ''role'' f"
      | (prole) "\<not> concrete ''role'' f" "concrete ''role'' p"
      | (norole) "\<not> concrete ''role'' f" "\<not> concrete ''role'' p"
      by blast
    then show ?thesis
    proof cases
      case frole
      then have "LambdaUpdateFunctionConfiguration ps
                   \<in> set (fst (updateWithRole prov res (propOf f ''role'') params))"
        using sent Inr by (simp add: updateFunctionConfiguration_def)
      then obtain arn where "ps = setKey ''Role'' arn params"
        using updateWithRole_calls by blast
      then show ?thesis by (simp add: omit_setKey_other)
    next
      case prole
      then have "LambdaUpdateFunctionConfiguration ps
                   \<in> set (fst (updateWithRole prov res (propOf p ''role'') params))"
        using sent Inr by (simp add: updateFunctionConfiguration_def)
      then obtain arn where "ps = setKey ''Role'' arn params"
        using updateWithRole_calls by blast
      then show ?thesis by (simp add: omit_setKey_other)
    next
      case norole
      then show ?thesis
        using sent Inr
        by (auto simp: updateFunctionConfiguration_def callUpdateFunctionConfiguration_def
              split: if_splits)
    qed
  qed
qed

theorem empty_patch_is_noop_witness:
  "buildParams bareFunction None [] = Inr [(''FunctionName'', JStr ''svc-dev-fn'')] \<and>
   updateFunctionConfiguration offline JUndefined bareFunction None [] = ([], Inr ()) \<and>
   fst (updateFunctionConfiguration acceptingProvider JUndefined sizedFunction None [])
     = [LambdaUpdateFunctionConfiguration
          [(''FunctionName'', JStr ''svc-dev-fn''), (''MemorySize'', JNum 512)]] \<and>
   omit [(''FunctionName'', JStr ''svc-dev-fn''), (''MemorySize'', JNum 512)] ''FunctionName''
     \<noteq> []"
proof -
  have b: "buildParams bareFunction None [] = Inr [(''FunctionName'', JStr ''svc-dev-fn'')]"
    by code_simp
  have r: "\<not> concrete ''role'' bareFunction \<and> \<not> concrete ''role'' []"
    by code_simp
  have o: "omit [(''FunctionName'', JStr ''svc-dev-fn'')] ''FunctionName'' = []"
    by (simp add: omit_def)
  have c: "fst (updateFunctionConfiguration acceptingProvider JUndefined sizedFunction None [])
             = [LambdaUpdateFunctionConfiguration
                  [(''FunctionName'', JStr ''svc-dev-fn''), (''MemorySize'', JNum 512)]]"
    by code_simp
  show ?thesis
    using empty_patch_is_noop [of bareFunction None "[]" offline JUndefined] b r o
      empty_patch_is_noop [of sizedFunction None "[]" acceptingProvider JUndefined] c
    by simp
qed

subsection \<open>The remote descriptor is not read\<close>

lemma remote_not_read:
  "concrete ''memorySize'' (setKey ''remoteFunctionData'' d p) = concrete ''memorySize'' p"
  "concrete ''timeout'' (setKey ''remoteFunctionData'' d p) = concrete ''timeout'' p"
  "concrete ''role'' (setKey ''remoteFunctionData'' d p) = concrete ''role'' p"
  "propOf (setKey ''remoteFunctionData'' d p) ''memorySize'' = propOf p ''memorySize''"
  "propOf (setKey ''remoteFunctionData'' d p) ''timeout'' = propOf p ''timeout''"
  "propOf (setKey ''remoteFunctionData'' d p) ''role'' = propOf p ''role''"
  "propOf (setKey ''remoteFunctionData'' d p) ''environment'' = propOf p ''environment''"
  "propOf (setKey ''remoteFunctionData'' d p) ''vpc'' = propOf p ''vpc''"
  by (simp_all add: concrete_setKey propOf_setKey)

lemma buildParams_remote:
  "buildParams f s (setKey ''remoteFunctionData'' d p) = buildParams f s p"
  unfolding buildParams_def memorySizeStep_def timeoutStep_def environmentStep_def
    mergedVariables_def vpcStep_def chosenVpc_def remote_not_read
  by (rule refl)

text \<open>
  C2, as amended. The descriptor of the function on the platform has no part in the
  update: whatever is put in its place, the calls and the outcome are the same. For a
  desired configuration whose merged environment has no entry \<open>length\<close> that is a
  number that can be a length, the method sends nothing and succeeds exactly when the
  desired configuration gives no field of the patch, and then the parameters hold the
  function name alone.
\<close>

theorem patch_ignores_remote_descriptor:
  "(\<forall>d. updateFunctionConfiguration prov res f s (setKey ''remoteFunctionData'' d p)
          = updateFunctionConfiguration prov res f s p) \<and>
   (\<not> arrayLike (mergedVariables f p) \<longrightarrow>
      (updateFunctionConfiguration prov res f s p = ([], Inr ()) \<longleftrightarrow> givesNothing f s p)) \<and>
   (\<not> arrayLike (mergedVariables f p) \<and> givesNothing f s p \<longrightarrow>
      buildParams f s p = Inr [(''FunctionName'', propOf f ''name'')])"
proof (intro conjI allI impI)
  fix d
  show "updateFunctionConfiguration prov res f s (setKey ''remoteFunctionData'' d p)
          = updateFunctionConfiguration prov res f s p"
    unfolding updateFunctionConfiguration_def buildParams_remote remote_not_read
    by (rule refl)
next
  assume plain: "\<not> arrayLike (mergedVariables f p)"
  show "updateFunctionConfiguration prov res f s p = ([], Inr ()) \<longleftrightarrow> givesNothing f s p"
  proof
    assume noop: "updateFunctionConfiguration prov res f s p = ([], Inr ())"
    then obtain params where b: "buildParams f s p = Inr params"
      by (cases "buildParams f s p") (simp_all add: updateFunctionConfiguration_def)
    have r: "\<not> concrete ''role'' f \<and> \<not> concrete ''role'' p"
      using noop b updateWithRole_not_noop
      by (auto simp: updateFunctionConfiguration_def split: if_splits)
    have "omit params ''FunctionName'' = []"
      using noop b r
      by (auto simp: updateFunctionConfiguration_def callUpdateFunctionConfiguration_def
            split: if_splits)
    then have "fst ` set params \<subseteq> {''FunctionName''}"
      by (simp add: omit_empty_iff)
    then show "givesNothing f s p"
      using r
      unfolding keys_buildParams [OF b] keys_scalarParams givesNothing_def
        environmentKept_given [OF plain]
      by (simp split: if_splits)
  next
    assume g: "givesNothing f s p"
    then have "\<not> concrete ''role'' f \<and> \<not> concrete ''role'' p"
      by (simp add: givesNothing_def)
    then show "updateFunctionConfiguration prov res f s p = ([], Inr ())"
      by (simp add: updateFunctionConfiguration_def buildParams_nothing [OF g plain] omit_def)
  qed
next
  assume "\<not> arrayLike (mergedVariables f p) \<and> givesNothing f s p"
  then show "buildParams f s p = Inr [(''FunctionName'', propOf f ''name'')]"
    by (simp add: buildParams_nothing)
qed

theorem patch_ignores_remote_descriptor_witness:
  "\<not> arrayLike (mergedVariables bareFunction deployedProvider) \<and>
   givesNothing bareFunction None deployedProvider \<and>
   updateFunctionConfiguration offline JUndefined bareFunction None deployedProvider
     = ([], Inr ()) \<and>
   buildParams bareFunction None deployedProvider = Inr [(''FunctionName'', JStr ''svc-dev-fn'')]"
proof -
  have a: "\<not> arrayLike (mergedVariables bareFunction deployedProvider)"
    by (simp add: arrayLike_def arrayLength_def mergedVariables_def assign_def ownEntries_def
          propOf_def bareFunction_def deployedProvider_def)
  have g: "givesNothing bareFunction None deployedProvider"
    by (simp add: givesNothing_def kmsKeyGiven_def onErrorGiven_def environmentGiven_def
          environmentSection_def vpcGiven_def concrete_def hasKey_def propOf_def
          bareFunction_def deployedProvider_def)
  have n: "propOf bareFunction ''name'' = JStr ''svc-dev-fn''"
    by (simp add: propOf_def bareFunction_def)
  show ?thesis
    using patch_ignores_remote_descriptor [of offline JUndefined bareFunction None
        deployedProvider] a g n
    by simp
qed

text \<open>
  C2 as it is written fails: the function asks for the memory size \<open>512\<close>, the
  descriptor on the platform has the memory size \<open>512\<close>, and the method sends an update
  with that memory size.
\<close>

theorem matching_configuration_counterexample:
  "propOf sizedFunction ''memorySize'' = JNum 512 \<and>
   memberOf (memberOf (propOf deployedProvider ''remoteFunctionData'') ''Configuration'')
     ''MemorySize'' = JNum 512 \<and>
   updateFunctionConfiguration acceptingProvider JUndefined sizedFunction None deployedProvider
     = ([LambdaUpdateFunctionConfiguration
           [(''FunctionName'', JStr ''svc-dev-fn''), (''MemorySize'', JNum 512)]], Inr ())"
  by code_simp

subsection \<open>The environment\<close>

lemma environment_in_patch:
  assumes "buildParams f s p = Inr params"
  shows "map_of params ''Environment''
           = (if environmentKept f p
              then Some (JObj [(''Variables'', JObj (mergedVariables f p))]) else None)"
proof -
  let ?sc = "scalarParams f s p"
  obtain params6 where e: "environmentStep f p ?sc = Inr params6"
    and v: "params = vpcStep f p params6"
    using assms by (auto simp: buildParams_cases split: sum.splits)
  have "''Environment'' \<notin> fst ` set ?sc"
    by (simp add: keys_scalarParams)
  then have none: "map_of ?sc ''Environment'' = None"
    by (simp add: map_of_eq_None_iff)
  have "map_of params6 ''Environment''
          = (if environmentKept f p
             then Some (JObj [(''Variables'', JObj (mergedVariables f p))]) else None)"
    using e none
    by (auto simp: environmentStep_cases environmentKept_def map_of_setKey map_of_deleteKey
          split: if_splits)
  then show ?thesis
    by (simp add: v map_of_vpcStep_other)
qed

lemma buildParams_environment_error:
  "buildParams f s p = Inl e \<longleftrightarrow>
     e = invalidEnvironment \<and> environmentKept f p \<and>
     \<not> (\<forall>k \<in> fst ` set (mergedVariables f p). validEnvKey k)"
  by (auto simp: buildParams_cases environmentStep_cases environmentKept_def
        split: sum.splits if_splits)

text \<open>
  C5, as amended. Let the function section and the provider section each carry an
  environment map, and let the merged map have no entry \<open>length\<close> that is a number that
  can be a length. The merged map holds, for every key, the value of the function section
  if it has the key and that of the provider section otherwise. If some merged value is
  structured, the patch carries no environment and no key is checked: the method does not
  fail on the environment, whatever the keys are. If no merged value is structured and
  every key fits the pattern, the patch carries the merged map as its environment. If no
  merged value is structured and some key does not fit the pattern, the method fails with
  the error of an invalid environment and issues no call.
\<close>

theorem environment_rule:
  assumes "propOf f ''environment'' = JObj fenv" and "propOf p ''environment'' = JObj penv"
    and "distinct (map fst fenv)" and "distinct (map fst penv)"
    and "\<not> arrayLike (mergedVariables f p)"
  shows "map_of (mergedVariables f p) = map_of penv ++ map_of fenv \<and>
         (\<not> hasPlaceholder (mergedVariables f p) \<and>
          (\<forall>k \<in> fst ` set (mergedVariables f p). validEnvKey k) \<longrightarrow>
            (\<exists>params. buildParams f s p = Inr params \<and>
               map_of params ''Environment''
                 = Some (JObj [(''Variables'', JObj (mergedVariables f p))]))) \<and>
         (hasPlaceholder (mergedVariables f p) \<longrightarrow>
            (\<exists>params. buildParams f s p = Inr params \<and> map_of params ''Environment'' = None)) \<and>
         (\<not> hasPlaceholder (mergedVariables f p) \<and>
          (\<exists>k \<in> fst ` set (mergedVariables f p). \<not> validEnvKey k) \<longrightarrow>
            updateFunctionConfiguration prov res f s p = ([], Inl invalidEnvironment))"
proof -
  have given: "environmentSection f p"
    using assms(1) by (simp add: environmentSection_def)
  have kept: "environmentKept f p \<longleftrightarrow> \<not> hasPlaceholder (mergedVariables f p)"
    using given assms(5) by (simp add: environmentKept_def some_every_value)
  have merged: "map_of (mergedVariables f p) = map_of penv ++ map_of fenv"
    using assms(1-4)
    by (simp add: mergedVariables_def ownEntries_def map_of_assign map_of_rev_distinct)
  have carried: "\<exists>params. buildParams f s p = Inr params \<and>
                map_of params ''Environment''
                  = Some (JObj [(''Variables'', JObj (mergedVariables f p))])"
    if "\<not> hasPlaceholder (mergedVariables f p)"
      and "\<forall>k \<in> fst ` set (mergedVariables f p). validEnvKey k"
  proof (cases "buildParams f s p")
    case (Inl e)
    then show ?thesis using that by (simp add: buildParams_environment_error)
  next
    case (Inr params)
    then show ?thesis
      using environment_in_patch [OF Inr] that(1) by (simp add: kept)
  qed
  have dropped: "\<exists>params. buildParams f s p = Inr params \<and> map_of params ''Environment'' = None"
    if "hasPlaceholder (mergedVariables f p)"
  proof (cases "buildParams f s p")
    case (Inl e)
    then show ?thesis
      using that by (simp add: buildParams_environment_error kept)
  next
    case (Inr params)
    then show ?thesis
      using environment_in_patch [OF Inr] that by (simp add: kept)
  qed
  have failed: "updateFunctionConfiguration prov res f s p = ([], Inl invalidEnvironment)"
    if "\<not> hasPlaceholder (mergedVariables f p)"
      and "\<exists>k \<in> fst ` set (mergedVariables f p). \<not> validEnvKey k"
  proof -
    have "buildParams f s p = Inl invalidEnvironment"
      using that by (auto simp: buildParams_environment_error kept)
    then show ?thesis by (simp add: updateFunctionConfiguration_def)
  qed
  show ?thesis
    using merged carried dropped failed by blast
qed

theorem environment_rule_witness:
  "mergedVariables envFunction envProvider = [(''B'', JStr ''2''), (''A'', JStr ''1'')] \<and>
   buildParams envFunction None envProvider
     = Inr [(''FunctionName'', JStr ''svc-dev-fn''),
            (''Environment'',
             JObj [(''Variables'', JObj [(''B'', JStr ''2''), (''A'', JStr ''1'')])])] \<and>
   hasPlaceholder (mergedVariables envFunction placeholderProvider) \<and>
   buildParams envFunction None placeholderProvider
     = Inr [(''FunctionName'', JStr ''svc-dev-fn'')] \<and>
   \<not> validEnvKey ''1BAD'' \<and>
   updateFunctionConfiguration offline JUndefined envFunction None badKeyProvider
     = ([], Inl (ServerlessError ''Invalid characters in environment variable''))"
proof -
  have fe: "propOf envFunction ''environment'' = JObj [(''A'', JStr ''1'')]"
    by code_simp
  have pe: "propOf envProvider ''environment'' = JObj [(''B'', JStr ''2''), (''A'', JStr ''x'')]"
    "propOf placeholderProvider ''environment''
       = JObj [(''B'', JObj [(''Ref'', JStr ''Table'')]), (''1BAD'', JStr ''x'')]"
    "propOf badKeyProvider ''environment'' = JObj [(''1BAD'', JStr ''x'')]"
    by code_simp+
  have m: "mergedVariables envFunction envProvider = [(''B'', JStr ''2''), (''A'', JStr ''1'')]"
    "mergedVariables envFunction placeholderProvider
       = [(''B'', JObj [(''Ref'', JStr ''Table'')]), (''1BAD'', JStr ''x''), (''A'', JStr ''1'')]"
    "mergedVariables envFunction badKeyProvider = [(''1BAD'', JStr ''x''), (''A'', JStr ''1'')]"
    by code_simp+
  have a: "\<not> arrayLike (mergedVariables envFunction envProvider)"
    "\<not> arrayLike (mergedVariables envFunction placeholderProvider)"
    "\<not> arrayLike (mergedVariables envFunction badKeyProvider)"
    by (simp_all add: m arrayLike_def arrayLength_def)
  have k: "validEnvKey ''A''" "validEnvKey ''B''" "\<not> validEnvKey ''1BAD''"
    by code_simp+
  have b: "buildParams envFunction None envProvider
             = Inr [(''FunctionName'', JStr ''svc-dev-fn''),
                    (''Environment'',
                     JObj [(''Variables'', JObj [(''B'', JStr ''2''), (''A'', JStr ''1'')])])]"
    "buildParams envFunction None placeholderProvider = Inr [(''FunctionName'', JStr ''svc-dev-fn'')]"
    by code_simp+
  have d: "distinct (map fst [(''A'', JStr ''1'')])"
    "distinct (map fst [(''B'', JStr ''2''), (''A'', JStr ''x'')])"
    "distinct (map fst [(''B'', JObj [(''Ref'', JStr ''Table'')]), (''1BAD'', JStr ''x'')])"
    "distinct (map fst [(''1BAD'', JStr ''x'')])"
    by simp_all
  show ?thesis
    using environment_rule [OF fe pe(1) d(1) d(2) a(1), of None offline JUndefined]
      environment_rule [OF fe pe(2) d(1) d(3) a(2), of None offline JUndefined]
      environment_rule [OF fe pe(3) d(1) d(4) a(3), of None offline JUndefined]
    by (simp add: m k b hasPlaceholder_def invalidEnvironment_def)
qed

text \<open>
  C5 as it is written fails: the merged map has the key \<open>1BAD\<close>, whose value is the
  text \<open>x\<close> and which does not fit the pattern, beside a key whose value is structured.
  The method does not fail: it leaves the environment out, has nothing to send, and
  succeeds without a call.
\<close>

theorem concrete_bad_key_counterexample:
  "map_of (mergedVariables envFunction placeholderProvider) ''1BAD'' = Some (JStr ''x'') \<and>
   \<not> isObject (JStr ''x'') \<and>
   \<not> validEnvKey ''1BAD'' \<and>
   updateFunctionConfiguration offline JUndefined envFunction None placeholderProvider
     = ([], Inr ())"
  by code_simp

text \<open>
  Where the merged map has an entry \<open>length\<close> that is a number that can be a length,
  the test of the method looks at the entries under the indices below it and at no other.
  In the example it finds no structured value, and the environment is sent with one. The
  theorems on the environment and on the empty patch say nothing about such maps.
\<close>

lemma array_like_environment_example:
  "arrayLike (mergedVariables bareFunction lengthProvider) \<and>
   hasPlaceholder (mergedVariables bareFunction lengthProvider) \<and>
   \<not> some (mergedVariables bareFunction lengthProvider) isObject \<and>
   buildParams bareFunction None lengthProvider
     = Inr [(''FunctionName'', JStr ''svc-dev-fn''),
            (''Environment'',
             JObj [(''Variables'',
                    JObj [(''length'', JNum 0),
                          (''TABLE'', JObj [(''Ref'', JStr ''Table'')])])])]"
proof -
  have m: "mergedVariables bareFunction lengthProvider
             = [(''length'', JNum 0), (''TABLE'', JObj [(''Ref'', JStr ''Table'')])]"
    by code_simp
  have s: "\<not> some [(''length'', JNum 0), (''TABLE'', JObj [(''Ref'', JStr ''Table'')])] isObject"
    by (simp add: some_def arrayLength_def)
  have b: "buildParams bareFunction None lengthProvider
             = Inr [(''FunctionName'', JStr ''svc-dev-fn''),
                    (''Environment'',
                     JObj [(''Variables'',
                            JObj [(''length'', JNum 0),
                                  (''TABLE'', JObj [(''Ref'', JStr ''Table'')])])])]"
    by code_simp
  show ?thesis
    using s by (simp add: m b arrayLike_def arrayLength_def hasPlaceholder_def)
qed

subsection \<open>The network placement\<close>

lemma vpc_in_patch:
  assumes "buildParams f s p = Inr params"
  shows "map_of params ''VpcConfig''
           = (if vpcGiven f p then Some (JObj (vpcConfigOf (chosenVpc f p))) else None)"
proof -
  let ?sc = "scalarParams f s p"
  obtain params6 where e: "environmentStep f p ?sc = Inr params6"
    and v: "params = vpcStep f p params6"
    using assms by (auto simp: buildParams_cases split: sum.splits)
  have "''VpcConfig'' \<notin> fst ` set params6"
    using keys_environmentStep [OF e] by (simp add: keys_scalarParams)
  then have "map_of params6 ''VpcConfig'' = None"
    by (simp add: map_of_eq_None_iff)
  then show ?thesis
    by (simp add: v vpcStep_cases map_of_setKey map_of_deleteKey)
qed

text \<open>
  C8, as amended. The patch carries the network placement if and only if a network
  section is given, at function level or else at provider level, and at least one of its
  two lists is an array without structured values. The field then holds exactly the lists
  that are such arrays, and so is not empty.
\<close>

theorem vpc_field_rule:
  assumes "buildParams f s p = Inr params"
  shows "(hasKey ''VpcConfig'' params \<longleftrightarrow> vpcGiven f p) \<and>
         (vpcGiven f p \<longrightarrow>
            propOf params ''VpcConfig'' = JObj (vpcConfigOf (chosenVpc f p)) \<and>
            vpcConfigOf (chosenVpc f p) \<noteq> []) \<and>
         (hasKey ''SecurityGroupIds'' (vpcConfigOf (chosenVpc f p))
            \<longleftrightarrow> plainList (memberOf (chosenVpc f p) ''securityGroupIds'')) \<and>
         (hasKey ''SubnetIds'' (vpcConfigOf (chosenVpc f p))
            \<longleftrightarrow> plainList (memberOf (chosenVpc f p) ''subnetIds''))"
proof -
  have lists:
    "(hasKey ''SecurityGroupIds'' (vpcConfigOf v) \<longleftrightarrow> plainList (memberOf v ''securityGroupIds'')) \<and>
     (hasKey ''SubnetIds'' (vpcConfigOf v) \<longleftrightarrow> plainList (memberOf v ''subnetIds''))" for v
    by (simp add: vpcConfigOf_def Let_def hasKey_def)
  have "vpcGiven f p \<Longrightarrow> vpcConfigOf (chosenVpc f p) \<noteq> []"
    by (simp add: vpcConfigOf_empty vpcGiven_def)
  then show ?thesis
    using vpc_in_patch [OF assms] lists [of "chosenVpc f p"]
    by (simp add: hasKey_def propOf_def)
qed

theorem vpc_field_rule_witness:
  "buildParams groupsOnlyFunction None []
     = Inr [(''FunctionName'', JStr ''svc-dev-fn''),
            (''VpcConfig'', JObj [(''SecurityGroupIds'', JArr [JStr ''sg-1''])])] \<and>
   vpcGiven groupsOnlyFunction [] \<and>
   hasKey ''SecurityGroupIds'' (vpcConfigOf (chosenVpc groupsOnlyFunction [])) \<and>
   \<not> hasKey ''SubnetIds'' (vpcConfigOf (chosenVpc groupsOnlyFunction []))"
proof -
  have b: "buildParams groupsOnlyFunction None []
             = Inr [(''FunctionName'', JStr ''svc-dev-fn''),
                    (''VpcConfig'', JObj [(''SecurityGroupIds'', JArr [JStr ''sg-1''])])]"
    by code_simp
  have h: "hasKey ''VpcConfig'' [(''FunctionName'', JStr ''svc-dev-fn''),
             (''VpcConfig'', JObj [(''SecurityGroupIds'', JArr [JStr ''sg-1''])])]"
    by (simp add: hasKey_def)
  have l: "plainList (memberOf (chosenVpc groupsOnlyFunction []) ''securityGroupIds'')"
    "\<not> plainList (memberOf (chosenVpc groupsOnlyFunction []) ''subnetIds'')"
    by code_simp+
  show ?thesis
    using vpc_field_rule [OF b] h l b by simp
qed

text \<open>
  C8 as it is written fails: the network section of the function has a list of security
  groups and no list of subnets, and the patch carries the network placement.
\<close>

theorem vpc_needs_both_lists_counterexample:
  "memberOf (propOf groupsOnlyFunction ''vpc'') ''subnetIds'' = JUndefined \<and>
   buildParams groupsOnlyFunction None []
     = Inr [(''FunctionName'', JStr ''svc-dev-fn''),
            (''VpcConfig'', JObj [(''SecurityGroupIds'', JArr [JStr ''sg-1''])])]"
  by code_simp

section \<open>The loader and the working directory\<close>

lemma splitOn_without: "sep \<notin> set s \<Longrightarrow> splitOn sep s = [s]"
  by (induction s) auto

lemma parentDir_empty:
  "CHR ''/'' \<notin> set name \<Longrightarrow> parentDir name = [] \<and> parentDir (CHR ''/'' # name) = []"
  by (simp add: parentDir_def splitOn_without)

text \<open>
  C9, as amended. The loader cuts the path of the root document at its last slash and asks
  the process to make that text its working directory. When the text is not empty and
  leads to a directory, the working directory of the process becomes that directory, in
  the form the operating system gives it; the root document is read and its references
  are resolved against the working directory of the process, and the process keeps that
  working directory when the load returns. When the text is empty, as it is for a path
  without a slash and for a path whose only slash is its first character, or when it
  leads to no directory, the loader fails and the process is as before.
\<close>

theorem loader_changes_working_directory:
  "(\<forall>proc1. chdir resolveDirectory (parentDir yamlFilePath) proc = Inr proc1 \<longrightarrow>
      parse resolveDirectory readRoot resolveRefs proc yamlFilePath
        = (proc1, (case readRoot proc1 yamlFilePath of
                     Inl e \<Rightarrow> Inl e
                   | Inr root \<Rightarrow> resolveRefs proc1 root))) \<and>
   (\<forall>target. parentDir yamlFilePath \<noteq> [] \<and>
             resolveDirectory (cwd proc) (parentDir yamlFilePath) = Inr target \<longrightarrow>
      chdir resolveDirectory (parentDir yamlFilePath) proc = Inr (proc\<lparr>cwd := target\<rparr>) \<and>
      cwd (fst (parse resolveDirectory readRoot resolveRefs proc yamlFilePath)) = target) \<and>
   (\<forall>e. parentDir yamlFilePath \<noteq> [] \<and>
        resolveDirectory (cwd proc) (parentDir yamlFilePath) = Inl e \<longrightarrow>
      parse resolveDirectory readRoot resolveRefs proc yamlFilePath = (proc, Inl e)) \<and>
   (parentDir yamlFilePath = [] \<longrightarrow>
      (\<exists>e. parse resolveDirectory readRoot resolveRefs proc yamlFilePath = (proc, Inl e))) \<and>
   (CHR ''/'' \<notin> set yamlFilePath \<or>
    (\<exists>name. yamlFilePath = CHR ''/'' # name \<and> CHR ''/'' \<notin> set name) \<longrightarrow>
      parentDir yamlFilePath = [])"
  using parentDir_empty by (auto simp: parse_def chdir_def)

theorem loader_changes_working_directory_witness:
  "parentDir ''/srv/app//serverless.yml'' = ''/srv/app/'' \<and>
   resolveIn appDirectories ''/home/user'' ''/srv/app/'' = Inr ''/srv/app'' \<and>
   parse (resolveIn appDirectories) exampleReadRoot exampleResolveRefs homeProcess
     ''/srv/app//serverless.yml''
     = (\<lparr>cwd = ''/srv/app''\<rparr>,
        Inr (JObj [(''service'', JStr ''svc''), (''resolvedAgainst'', JStr ''/srv/app'')])) \<and>
   parentDir ''/serverless.yml'' = [] \<and>
   fst (parse (resolveIn appDirectories) exampleReadRoot exampleResolveRefs homeProcess
          ''/serverless.yml'') = homeProcess \<and>
   parentDir ''serverless.yml'' = [] \<and>
   fst (parse (resolveIn appDirectories) exampleReadRoot exampleResolveRefs homeProcess
          ''serverless.yml'') = homeProcess"
proof -
  let ?load = "parse (resolveIn appDirectories) exampleReadRoot exampleResolveRefs homeProcess"
  have p: "parentDir ''/srv/app//serverless.yml'' = ''/srv/app/''"
    "parentDir ''/serverless.yml'' = []" "parentDir ''serverless.yml'' = []"
    by code_simp+
  have r: "resolveIn appDirectories (cwd homeProcess) ''/srv/app/'' = Inr ''/srv/app''"
    "resolveIn appDirectories ''/home/user'' ''/srv/app/'' = Inr ''/srv/app''"
    by code_simp+
  have x: "exampleResolveRefs \<lparr>cwd = ''/srv/app''\<rparr> (JObj [(''service'', JStr ''svc'')])
             = Inr (JObj [(''service'', JStr ''svc''), (''resolvedAgainst'', JStr ''/srv/app'')])"
    by code_simp
  have c: "chdir (resolveIn appDirectories) (parentDir ''/srv/app//serverless.yml'') homeProcess
             = Inr \<lparr>cwd = ''/srv/app''\<rparr>"
    by (simp add: p chdir_def r homeProcess_def)
  have moved: "?load ''/srv/app//serverless.yml''
                 = (\<lparr>cwd = ''/srv/app''\<rparr>,
                    Inr (JObj [(''service'', JStr ''svc''),
                               (''resolvedAgainst'', JStr ''/srv/app'')]))"
    using loader_changes_working_directory [of "resolveIn appDirectories"
        "''/srv/app//serverless.yml''" homeProcess exampleReadRoot exampleResolveRefs] c
    by (simp add: exampleReadRoot_def x)
  have root: "fst (?load ''/serverless.yml'') = homeProcess"
    using loader_changes_working_directory [of "resolveIn appDirectories"
        "''/serverless.yml''" homeProcess exampleReadRoot exampleResolveRefs] p(2)
    by auto
  have bare: "fst (?load ''serverless.yml'') = homeProcess"
    using loader_changes_working_directory [of "resolveIn appDirectories"
        "''serverless.yml''" homeProcess exampleReadRoot exampleResolveRefs] p(3)
    by auto
  show ?thesis
    using p r(2) moved root bare by simp
qed

text \<open>
  C9 as it is written fails: a process that works in \<open>/home/user\<close> and loads
  \<open>/srv/app/serverless.yml\<close> works in \<open>/srv/app\<close> when the load has returned.
\<close>

theorem loader_leaves_process_counterexample:
  "cwd homeProcess = ''/home/user'' \<and>
   cwd (fst (parse (resolveIn appDirectories) exampleReadRoot exampleResolveRefs homeProcess
               ''/srv/app/serverless.yml'')) = ''/srv/app''"
  by code_simp

end
